theory Spec2Isabelle
  imports Complex_Main "HOL-Library.Word" "HOL-Library.Log_Nat"
begin

section \<open>Data model of \<open>Ostap/Bernstein3D.h\<close>\<close>

text \<open>
  The header declares three tensor polynomials (\<open>Bernstein3D\<close>, \<open>Bernstein3DSym\<close>,
  \<open>Bernstein3DMix\<close>) and three non-negative wrappers.  \<open>unsigned short\<close> is a 16-bit word,
  \<open>unsigned int\<close> a 32-bit word (arithmetic wraps), \<open>std::size_t\<close> values are read as
  natural numbers, and \<open>std::vector<double>\<close> is a list.  A \<open>double\<close> is carried as the real
  number it denotes.  The coordinate transforms, whose round trips are decided by rounding,
  round every operation to binary64; the member functions that are only declared in the
  header are written from the formulas of the specification, in exact arithmetic.  Infinities
  and NaN are not part of this model.
\<close>

type_synonym ushort = "16 word"
type_synonym uint = "32 word"

record Bernstein3D =
  m_nx :: ushort
  m_ny :: ushort
  m_nz :: ushort
  m_pars :: "real list"
  m_xmin :: real
  m_xmax :: real
  m_ymin :: real
  m_ymax :: real
  m_zmin :: real
  m_zmax :: real

record Bernstein3DSym =
  sym_m_n :: ushort
  sym_m_pars :: "real list"
  sym_m_xmin :: real
  sym_m_xmax :: real

record Bernstein3DMix =
  mix_m_n :: ushort
  mix_m_nz :: ushort
  mix_m_pars :: "real list"
  mix_m_xmin :: real
  mix_m_xmax :: real
  mix_m_zmin :: real
  mix_m_zmax :: real

section \<open>Index packing\<close>

text \<open>
  \<open>Bernstein3D::index\<close>: the operands are promoted and multiplied by \<open>1u\<close>, so the whole
  expression is computed in \<open>unsigned int\<close>; the \<open>-1\<close> of the first branch is converted to
  \<open>unsigned int\<close>, that is \<open>0xFFFFFFFF\<close>.
\<close>

definition Bernstein3D_index :: "Bernstein3D \<Rightarrow> ushort \<Rightarrow> ushort \<Rightarrow> ushort \<Rightarrow> uint" where
  "Bernstein3D_index b l m n =
     (if l > m_nx b \<or> m > m_ny b \<or> n > m_nz b then - 1
      else (ucast (m_nz b) + 1) * (ucast (m_ny b) + 1) * ucast l
         + (ucast (m_nz b) + 1) * ucast m
         + ucast n)"

text \<open>The number of ordering inversions of a triple: the measure of the two recursions.\<close>

definition inversions :: "ushort \<Rightarrow> ushort \<Rightarrow> ushort \<Rightarrow> nat" where
  "inversions l m n =
     (if l < m then 1 else 0) + (if m < n then 1 else 0) + (if l < n then 1 else 0)"

function Bernstein3DSym_index :: "Bernstein3DSym \<Rightarrow> ushort \<Rightarrow> ushort \<Rightarrow> ushort \<Rightarrow> uint" where
  "Bernstein3DSym_index b l m n =
     (if m > l then Bernstein3DSym_index b m l n
      else if n > m then Bernstein3DSym_index b l n m
      else if l > sym_m_n b then - 1
      else (ucast l * (ucast l + 1) * (ucast l + 2)) div 6
         + (ucast m * (ucast m + 1)) div 2
         + ucast n)"
  by pat_completeness auto
termination
  by (relation "measure (\<lambda>(b, l, m, n). inversions l m n)")
     (auto simp: inversions_def)

function Bernstein3DMix_index :: "Bernstein3DMix \<Rightarrow> ushort \<Rightarrow> ushort \<Rightarrow> ushort \<Rightarrow> uint" where
  "Bernstein3DMix_index b l m n =
     (if m > l then Bernstein3DMix_index b m l n
      else if l > mix_m_n b then - 1
      else if n > mix_m_nz b then - 1
      else ((ucast l * (ucast l + 1)) div 2 + ucast m) * (ucast (mix_m_nz b) + 1) + ucast n)"
  by pat_completeness auto
termination
  by (relation "measure (\<lambda>(b, l, m, n). inversions l m n)")
     (auto simp: inversions_def)

declare Bernstein3DSym_index.simps [simp del]
declare Bernstein3DMix_index.simps [simp del]

text \<open>
  The same two functions with an explicit budget of self-calls: \<open>None\<close> when the budget is
  used up before a non-recursive branch is reached.
\<close>

fun Bernstein3DSym_index_fuel ::
  "nat \<Rightarrow> Bernstein3DSym \<Rightarrow> ushort \<Rightarrow> ushort \<Rightarrow> ushort \<Rightarrow> uint option" where
  "Bernstein3DSym_index_fuel fuel b l m n =
     (if m > l then
        (case fuel of 0 \<Rightarrow> None | Suc f \<Rightarrow> Bernstein3DSym_index_fuel f b m l n)
      else if n > m then
        (case fuel of 0 \<Rightarrow> None | Suc f \<Rightarrow> Bernstein3DSym_index_fuel f b l n m)
      else if l > sym_m_n b then Some (- 1)
      else Some ((ucast l * (ucast l + 1) * (ucast l + 2)) div 6
         + (ucast m * (ucast m + 1)) div 2
         + ucast n))"

fun Bernstein3DMix_index_fuel ::
  "nat \<Rightarrow> Bernstein3DMix \<Rightarrow> ushort \<Rightarrow> ushort \<Rightarrow> ushort \<Rightarrow> uint option" where
  "Bernstein3DMix_index_fuel fuel b l m n =
     (if m > l then
        (case fuel of 0 \<Rightarrow> None | Suc f \<Rightarrow> Bernstein3DMix_index_fuel f b m l n)
      else if l > mix_m_n b then Some (- 1)
      else if n > mix_m_nz b then Some (- 1)
      else Some (((ucast l * (ucast l + 1)) div 2 + ucast m) * (ucast (mix_m_nz b) + 1)
         + ucast n))"

declare Bernstein3DSym_index_fuel.simps [simp del]
declare Bernstein3DMix_index_fuel.simps [simp del]

section \<open>Coefficient access\<close>

text \<open>
  \<open>par (unsigned int k)\<close> is \<open>k < m_pars.size() ? m_pars[k] : 0.0\<close> in all three classes;
  the comparison is made in \<open>std::size_t\<close>, so \<open>k\<close> is read as a natural number.
  \<open>par (l, m, n)\<close> is \<open>par (index (l, m, n))\<close>.
\<close>

definition Bernstein3D_npars :: "Bernstein3D \<Rightarrow> nat" where
  "Bernstein3D_npars b = length (m_pars b)"

definition Bernstein3DSym_npars :: "Bernstein3DSym \<Rightarrow> nat" where
  "Bernstein3DSym_npars b = length (sym_m_pars b)"

definition Bernstein3DMix_npars :: "Bernstein3DMix \<Rightarrow> nat" where
  "Bernstein3DMix_npars b = length (mix_m_pars b)"

definition Bernstein3D_par :: "Bernstein3D \<Rightarrow> uint \<Rightarrow> real" where
  "Bernstein3D_par b k = (if unat k < length (m_pars b) then m_pars b ! unat k else 0)"

definition Bernstein3DSym_par :: "Bernstein3DSym \<Rightarrow> uint \<Rightarrow> real" where
  "Bernstein3DSym_par b k =
     (if unat k < length (sym_m_pars b) then sym_m_pars b ! unat k else 0)"

definition Bernstein3DMix_par :: "Bernstein3DMix \<Rightarrow> uint \<Rightarrow> real" where
  "Bernstein3DMix_par b k =
     (if unat k < length (mix_m_pars b) then mix_m_pars b ! unat k else 0)"

definition Bernstein3D_par3 :: "Bernstein3D \<Rightarrow> ushort \<Rightarrow> ushort \<Rightarrow> ushort \<Rightarrow> real" where
  "Bernstein3D_par3 b l m n = Bernstein3D_par b (Bernstein3D_index b l m n)"

definition Bernstein3DSym_par3 :: "Bernstein3DSym \<Rightarrow> ushort \<Rightarrow> ushort \<Rightarrow> ushort \<Rightarrow> real" where
  "Bernstein3DSym_par3 b l m n = Bernstein3DSym_par b (Bernstein3DSym_index b l m n)"

definition Bernstein3DMix_par3 :: "Bernstein3DMix \<Rightarrow> ushort \<Rightarrow> ushort \<Rightarrow> ushort \<Rightarrow> real" where
  "Bernstein3DMix_par3 b l m n = Bernstein3DMix_par b (Bernstein3DMix_index b l m n)"

text \<open>
  Modelled from the spec: the bodies of the flat setters \<open>setPar (unsigned int k, double value)\<close>
  of the three classes are missing (the header only declares them).  The spec gives: a write
  through an index that names no coefficient is a no-op returning failure; a write through a
  valid index stores the value and returns success.  The result is the returned flag and the
  object after the call.
\<close>

definition Bernstein3D_setPar :: "Bernstein3D \<Rightarrow> uint \<Rightarrow> real \<Rightarrow> bool \<times> Bernstein3D" where
  "Bernstein3D_setPar b k v =
     (if unat k < length (m_pars b) then (True, b\<lparr>m_pars := (m_pars b)[unat k := v]\<rparr>)
      else (False, b))"

definition Bernstein3DSym_setPar ::
  "Bernstein3DSym \<Rightarrow> uint \<Rightarrow> real \<Rightarrow> bool \<times> Bernstein3DSym" where
  "Bernstein3DSym_setPar b k v =
     (if unat k < length (sym_m_pars b)
      then (True, b\<lparr>sym_m_pars := (sym_m_pars b)[unat k := v]\<rparr>)
      else (False, b))"

definition Bernstein3DMix_setPar ::
  "Bernstein3DMix \<Rightarrow> uint \<Rightarrow> real \<Rightarrow> bool \<times> Bernstein3DMix" where
  "Bernstein3DMix_setPar b k v =
     (if unat k < length (mix_m_pars b)
      then (True, b\<lparr>mix_m_pars := (mix_m_pars b)[unat k := v]\<rparr>)
      else (False, b))"

text \<open>
  \<open>setParameter (k, value)\<close> is \<open>(k < m_pars.size()) && setPar (k, value)\<close>: the flat setter
  is not called when the test fails.
\<close>

definition Bernstein3D_setParameter :: "Bernstein3D \<Rightarrow> uint \<Rightarrow> real \<Rightarrow> bool \<times> Bernstein3D" where
  "Bernstein3D_setParameter b k v =
     (if unat k < length (m_pars b) then Bernstein3D_setPar b k v else (False, b))"

definition Bernstein3DSym_setParameter ::
  "Bernstein3DSym \<Rightarrow> uint \<Rightarrow> real \<Rightarrow> bool \<times> Bernstein3DSym" where
  "Bernstein3DSym_setParameter b k v =
     (if unat k < length (sym_m_pars b) then Bernstein3DSym_setPar b k v else (False, b))"

definition Bernstein3DMix_setParameter ::
  "Bernstein3DMix \<Rightarrow> uint \<Rightarrow> real \<Rightarrow> bool \<times> Bernstein3DMix" where
  "Bernstein3DMix_setParameter b k v =
     (if unat k < length (mix_m_pars b) then Bernstein3DMix_setPar b k v else (False, b))"

text \<open>
  \<open>setPar (l, m, n, value)\<close> of \<open>Bernstein3D\<close> and \<open>Bernstein3DSym\<close>:
  \<open>k = index (l, m, n); return (k < m_pars.size()) && setPar (k, value)\<close>.
\<close>

definition Bernstein3D_setPar3 ::
  "Bernstein3D \<Rightarrow> ushort \<Rightarrow> ushort \<Rightarrow> ushort \<Rightarrow> real \<Rightarrow> bool \<times> Bernstein3D" where
  "Bernstein3D_setPar3 b l m n v =
     (let k = Bernstein3D_index b l m n
      in if unat k < length (m_pars b) then Bernstein3D_setPar b k v else (False, b))"

definition Bernstein3DSym_setPar3 ::
  "Bernstein3DSym \<Rightarrow> ushort \<Rightarrow> ushort \<Rightarrow> ushort \<Rightarrow> real \<Rightarrow> bool \<times> Bernstein3DSym" where
  "Bernstein3DSym_setPar3 b l m n v =
     (let k = Bernstein3DSym_index b l m n
      in if unat k < length (sym_m_pars b) then Bernstein3DSym_setPar b k v else (False, b))"

text \<open>
  Modelled from the spec: \<open>Bernstein3DMix::setPar (l, m, n, value)\<close> is declared without a
  body.  The spec gives: get and set by triple are translated through the index map, and an
  invalid index makes the write a no-op returning failure.
\<close>

definition Bernstein3DMix_setPar3 ::
  "Bernstein3DMix \<Rightarrow> ushort \<Rightarrow> ushort \<Rightarrow> ushort \<Rightarrow> real \<Rightarrow> bool \<times> Bernstein3DMix" where
  "Bernstein3DMix_setPar3 b l m n v =
     (let k = Bernstein3DMix_index b l m n
      in if unat k < length (mix_m_pars b) then Bernstein3DMix_setPar b k v else (False, b))"

section \<open>Domain edges\<close>

text \<open>
  In \<open>Bernstein3DSym\<close> the y and z edges are the x edges (\<open>ymin ()\<close> is \<open>xmin ()\<close>, and so
  on); in \<open>Bernstein3DMix\<close> the y edges are the x edges.
\<close>

definition Bernstein3DSym_xmin :: "Bernstein3DSym \<Rightarrow> real" where
  "Bernstein3DSym_xmin b = sym_m_xmin b"

definition Bernstein3DSym_xmax :: "Bernstein3DSym \<Rightarrow> real" where
  "Bernstein3DSym_xmax b = sym_m_xmax b"

definition Bernstein3DSym_ymin :: "Bernstein3DSym \<Rightarrow> real" where
  "Bernstein3DSym_ymin b = Bernstein3DSym_xmin b"

definition Bernstein3DSym_ymax :: "Bernstein3DSym \<Rightarrow> real" where
  "Bernstein3DSym_ymax b = Bernstein3DSym_xmax b"

definition Bernstein3DSym_zmin :: "Bernstein3DSym \<Rightarrow> real" where
  "Bernstein3DSym_zmin b = Bernstein3DSym_xmin b"

definition Bernstein3DSym_zmax :: "Bernstein3DSym \<Rightarrow> real" where
  "Bernstein3DSym_zmax b = Bernstein3DSym_xmax b"

definition Bernstein3DMix_xmin :: "Bernstein3DMix \<Rightarrow> real" where
  "Bernstein3DMix_xmin b = mix_m_xmin b"

definition Bernstein3DMix_xmax :: "Bernstein3DMix \<Rightarrow> real" where
  "Bernstein3DMix_xmax b = mix_m_xmax b"

definition Bernstein3DMix_ymin :: "Bernstein3DMix \<Rightarrow> real" where
  "Bernstein3DMix_ymin b = Bernstein3DMix_xmin b"

definition Bernstein3DMix_ymax :: "Bernstein3DMix \<Rightarrow> real" where
  "Bernstein3DMix_ymax b = Bernstein3DMix_xmax b"

definition Bernstein3DMix_zmin :: "Bernstein3DMix \<Rightarrow> real" where
  "Bernstein3DMix_zmin b = mix_m_zmin b"

definition Bernstein3DMix_zmax :: "Bernstein3DMix \<Rightarrow> real" where
  "Bernstein3DMix_zmax b = mix_m_zmax b"

section \<open>Double-precision arithmetic\<close>

text \<open>
  The coordinate transforms compute with \<open>double\<close>, and whether they invert each other
  exactly is decided by rounding.  For them a real number stands for the \<open>double\<close> of that
  value, and every arithmetic operation returns the exact result rounded to the nearest
  binary64 number, ties to even (the default rounding of IEEE 754): a number of magnitude in
  \<open>[2^k, 2^(k+1))\<close> is rounded to a multiple of \<open>2^(k-52)\<close>, and a number below
  \<open>2^(-1022)\<close> to a multiple of \<open>2^(-1074)\<close>.  Overflow to infinity, NaN, division by
  zero and the sign of zero are not represented: the statements about the transforms are
  restricted to intervals with \<open>min < max\<close> and to results that are zero or in the normal
  range, where none of them arises.
\<close>

definition round_half_even :: "real \<Rightarrow> int" where
  "round_half_even y =
     (let f = \<lfloor>y\<rfloor>; d = y - of_int f
      in if d < 1 / 2 then f
         else if 1 / 2 < d then f + 1
         else if even f then f else f + 1)"

text \<open>
  The binade of a positive number \<open>a\<close> is the exponent \<open>k\<close> with \<open>2^k \<le> a < 2^(k+1)\<close>, that
  is \<open>\<lfloor>log\<^sub>2 a\<rfloor>\<close>; it is computed from the bit length of \<open>\<lfloor>a\<rfloor>\<close>, or of \<open>\<lceil>1 / a\<rceil> - 1\<close>
  when \<open>a < 1\<close>.  The spacing of the doubles around \<open>r\<close> is \<open>2\<close> to the power
  \<open>ulp_exponent r\<close>.
\<close>

definition binade :: "real \<Rightarrow> int" where
  "binade a =
     (if 1 \<le> a then int (floorlog 2 (nat \<lfloor>a\<rfloor>)) - 1
      else - int (floorlog 2 (nat (\<lceil>1 / a\<rceil> - 1))))"

definition ulp_exponent :: "real \<Rightarrow> int" where
  "ulp_exponent r = max (binade \<bar>r\<bar> - 52) (- 1074)"

definition double_round :: "real \<Rightarrow> real" where
  "double_round r =
     (if r = 0 then 0
      else of_int (round_half_even (r / 2 powi ulp_exponent r)) * 2 powi ulp_exponent r)"

definition double_add :: "real \<Rightarrow> real \<Rightarrow> real" where
  "double_add a b = double_round (a + b)"

definition double_sub :: "real \<Rightarrow> real \<Rightarrow> real" where
  "double_sub a b = double_round (a - b)"

definition double_mul :: "real \<Rightarrow> real \<Rightarrow> real" where
  "double_mul a b = double_round (a * b)"

definition double_div :: "real \<Rightarrow> real \<Rightarrow> real" where
  "double_div a b = double_round (a / b)"

text \<open>
  The largest \<open>double\<close> is \<open>(2^53 - 1) * 2^971\<close>.  An exact result is in the normal range
  when it is zero or its magnitude lies between the smallest normal \<open>double\<close>, \<open>2^(-1022)\<close>,
  and the largest \<open>double\<close>: rounding it neither underflows nor overflows.  The unit
  roundoff of binary64 is \<open>2^(-53)\<close>.
\<close>

definition double_max :: real where
  "double_max = (2 ^ 53 - 1) * 2 ^ 971"

definition double_normal :: "real \<Rightarrow> bool" where
  "double_normal r \<longleftrightarrow> r = 0 \<or> (2 powi (- 1022) \<le> \<bar>r\<bar> \<and> \<bar>r\<bar> \<le> double_max)"

definition double_unit :: real where
  "double_unit = 2 powi (- 53)"

section \<open>Coordinate transforms\<close>

text \<open>
  \<open>x (tx) = xmin () + (xmax () - xmin ()) * tx\<close> and
  \<open>tx (x) = (x - xmin ()) / (xmax () - xmin ())\<close>, likewise for y and z, in the three
  tensor classes; each operation is one \<open>double\<close> operation, in the order the expression
  is written.
\<close>

definition Bernstein3D_x :: "Bernstein3D \<Rightarrow> real \<Rightarrow> real" where
  "Bernstein3D_x b tx =
     double_add (m_xmin b) (double_mul (double_sub (m_xmax b) (m_xmin b)) tx)"

definition Bernstein3D_y :: "Bernstein3D \<Rightarrow> real \<Rightarrow> real" where
  "Bernstein3D_y b ty =
     double_add (m_ymin b) (double_mul (double_sub (m_ymax b) (m_ymin b)) ty)"

definition Bernstein3D_z :: "Bernstein3D \<Rightarrow> real \<Rightarrow> real" where
  "Bernstein3D_z b tz =
     double_add (m_zmin b) (double_mul (double_sub (m_zmax b) (m_zmin b)) tz)"

definition Bernstein3D_tx :: "Bernstein3D \<Rightarrow> real \<Rightarrow> real" where
  "Bernstein3D_tx b x =
     double_div (double_sub x (m_xmin b)) (double_sub (m_xmax b) (m_xmin b))"

definition Bernstein3D_ty :: "Bernstein3D \<Rightarrow> real \<Rightarrow> real" where
  "Bernstein3D_ty b y =
     double_div (double_sub y (m_ymin b)) (double_sub (m_ymax b) (m_ymin b))"

definition Bernstein3D_tz :: "Bernstein3D \<Rightarrow> real \<Rightarrow> real" where
  "Bernstein3D_tz b z =
     double_div (double_sub z (m_zmin b)) (double_sub (m_zmax b) (m_zmin b))"

definition Bernstein3DSym_x :: "Bernstein3DSym \<Rightarrow> real \<Rightarrow> real" where
  "Bernstein3DSym_x b tx =
     double_add (Bernstein3DSym_xmin b)
       (double_mul (double_sub (Bernstein3DSym_xmax b) (Bernstein3DSym_xmin b)) tx)"

definition Bernstein3DSym_y :: "Bernstein3DSym \<Rightarrow> real \<Rightarrow> real" where
  "Bernstein3DSym_y b ty =
     double_add (Bernstein3DSym_ymin b)
       (double_mul (double_sub (Bernstein3DSym_ymax b) (Bernstein3DSym_ymin b)) ty)"

definition Bernstein3DSym_z :: "Bernstein3DSym \<Rightarrow> real \<Rightarrow> real" where
  "Bernstein3DSym_z b tz =
     double_add (Bernstein3DSym_zmin b)
       (double_mul (double_sub (Bernstein3DSym_zmax b) (Bernstein3DSym_zmin b)) tz)"

definition Bernstein3DSym_tx :: "Bernstein3DSym \<Rightarrow> real \<Rightarrow> real" where
  "Bernstein3DSym_tx b x =
     double_div (double_sub x (Bernstein3DSym_xmin b))
       (double_sub (Bernstein3DSym_xmax b) (Bernstein3DSym_xmin b))"

definition Bernstein3DSym_ty :: "Bernstein3DSym \<Rightarrow> real \<Rightarrow> real" where
  "Bernstein3DSym_ty b y =
     double_div (double_sub y (Bernstein3DSym_ymin b))
       (double_sub (Bernstein3DSym_ymax b) (Bernstein3DSym_ymin b))"

definition Bernstein3DSym_tz :: "Bernstein3DSym \<Rightarrow> real \<Rightarrow> real" where
  "Bernstein3DSym_tz b z =
     double_div (double_sub z (Bernstein3DSym_zmin b))
       (double_sub (Bernstein3DSym_zmax b) (Bernstein3DSym_zmin b))"

definition Bernstein3DMix_x :: "Bernstein3DMix \<Rightarrow> real \<Rightarrow> real" where
  "Bernstein3DMix_x b tx =
     double_add (Bernstein3DMix_xmin b)
       (double_mul (double_sub (Bernstein3DMix_xmax b) (Bernstein3DMix_xmin b)) tx)"

definition Bernstein3DMix_y :: "Bernstein3DMix \<Rightarrow> real \<Rightarrow> real" where
  "Bernstein3DMix_y b ty =
     double_add (Bernstein3DMix_ymin b)
       (double_mul (double_sub (Bernstein3DMix_ymax b) (Bernstein3DMix_ymin b)) ty)"

definition Bernstein3DMix_z :: "Bernstein3DMix \<Rightarrow> real \<Rightarrow> real" where
  "Bernstein3DMix_z b tz =
     double_add (Bernstein3DMix_zmin b)
       (double_mul (double_sub (Bernstein3DMix_zmax b) (Bernstein3DMix_zmin b)) tz)"

definition Bernstein3DMix_tx :: "Bernstein3DMix \<Rightarrow> real \<Rightarrow> real" where
  "Bernstein3DMix_tx b x =
     double_div (double_sub x (Bernstein3DMix_xmin b))
       (double_sub (Bernstein3DMix_xmax b) (Bernstein3DMix_xmin b))"

definition Bernstein3DMix_ty :: "Bernstein3DMix \<Rightarrow> real \<Rightarrow> real" where
  "Bernstein3DMix_ty b y =
     double_div (double_sub y (Bernstein3DMix_ymin b))
       (double_sub (Bernstein3DMix_ymax b) (Bernstein3DMix_ymin b))"

definition Bernstein3DMix_tz :: "Bernstein3DMix \<Rightarrow> real \<Rightarrow> real" where
  "Bernstein3DMix_tz b z =
     double_div (double_sub z (Bernstein3DMix_zmin b))
       (double_sub (Bernstein3DMix_zmax b) (Bernstein3DMix_zmin b))"

section \<open>Basic polynomials\<close>

text \<open>
  Modelled from the spec: the class \<open>Bernstein\<close> of \<open>Ostap/Bernstein.h\<close> is missing.  The
  spec gives the degree-\<open>n\<close> basis function \<open>B i n t = C(n,i) t^i (1-t)^(n-i)\<close> on the unit
  interval, reached from an interval \<open>[xmin, xmax]\<close> through \<open>t = (v - min) / (max - min)\<close>
  (\<open>Bernstein_local\<close>, in exact arithmetic as the spec states it), with a domain clamp of
  its own: the value is 0 outside the interval.  \<open>m_bx[i]\<close> is the
  \<open>i\<close>-th basis polynomial of degree \<open>m_nx\<close> on \<open>[m_xmin, m_xmax]\<close>.
\<close>

definition Bernstein_basis :: "nat \<Rightarrow> nat \<Rightarrow> real \<Rightarrow> real" where
  "Bernstein_basis n i t = of_nat (n choose i) * t ^ i * (1 - t) ^ (n - i)"

definition Bernstein_local :: "real \<Rightarrow> real \<Rightarrow> real \<Rightarrow> real" where
  "Bernstein_local lo hi v = (v - lo) / (hi - lo)"

definition Bernstein_basic :: "nat \<Rightarrow> nat \<Rightarrow> real \<Rightarrow> real \<Rightarrow> real \<Rightarrow> real" where
  "Bernstein_basic n i lo hi v =
     (if v < lo \<or> v > hi then 0 else Bernstein_basis n i (Bernstein_local lo hi v))"

text \<open>
  \<open>basicX (i, x)\<close> is \<open>(i > m_nx || x < m_xmin || x < m_xmax) ? 0.0 : m_bx[i](x)\<close>; the
  third test compares with \<open><\<close>, as the source does.  The same holds for the other two
  axes and the other two classes.
\<close>

definition Bernstein3D_basicX :: "Bernstein3D \<Rightarrow> ushort \<Rightarrow> real \<Rightarrow> real" where
  "Bernstein3D_basicX b i x =
     (if i > m_nx b \<or> x < m_xmin b \<or> x < m_xmax b then 0
      else Bernstein_basic (unat (m_nx b)) (unat i) (m_xmin b) (m_xmax b) x)"

definition Bernstein3D_basicY :: "Bernstein3D \<Rightarrow> ushort \<Rightarrow> real \<Rightarrow> real" where
  "Bernstein3D_basicY b i y =
     (if i > m_ny b \<or> y < m_ymin b \<or> y < m_ymax b then 0
      else Bernstein_basic (unat (m_ny b)) (unat i) (m_ymin b) (m_ymax b) y)"

definition Bernstein3D_basicZ :: "Bernstein3D \<Rightarrow> ushort \<Rightarrow> real \<Rightarrow> real" where
  "Bernstein3D_basicZ b i z =
     (if i > m_nz b \<or> z < m_zmin b \<or> z < m_zmax b then 0
      else Bernstein_basic (unat (m_nz b)) (unat i) (m_zmin b) (m_zmax b) z)"

definition Bernstein3DSym_basicX :: "Bernstein3DSym \<Rightarrow> ushort \<Rightarrow> real \<Rightarrow> real" where
  "Bernstein3DSym_basicX b i x =
     (if i > sym_m_n b \<or> x < Bernstein3DSym_xmin b \<or> x < Bernstein3DSym_xmax b then 0
      else Bernstein_basic (unat (sym_m_n b)) (unat i) (sym_m_xmin b) (sym_m_xmax b) x)"

definition Bernstein3DMix_basicX :: "Bernstein3DMix \<Rightarrow> ushort \<Rightarrow> real \<Rightarrow> real" where
  "Bernstein3DMix_basicX b i x =
     (if i > mix_m_n b \<or> x < Bernstein3DMix_xmin b \<or> x < Bernstein3DMix_xmax b then 0
      else Bernstein_basic (unat (mix_m_n b)) (unat i) (mix_m_xmin b) (mix_m_xmax b) x)"

section \<open>Construction, evaluation, integration and shifts of the tensors\<close>

text \<open>
  Modelled from the spec: the constructors are declared without bodies.  The spec gives:
  degrees and domain are fixed at construction, and the coefficient array has one entry per
  stored basis triple: \<open>(nx+1)(ny+1)(nz+1)\<close> entries for \<open>Bernstein3D\<close>,
  \<open>(N+1)(N+2)(N+3)/6\<close> for \<open>Bernstein3DSym\<close> and \<open>((N+1)(N+2)/2)(Nz+1)\<close> for
  \<open>Bernstein3DMix\<close>; a coefficient reads 0 until it is set.
\<close>

definition Bernstein3D_ctor ::
  "ushort \<Rightarrow> ushort \<Rightarrow> ushort \<Rightarrow> real \<Rightarrow> real \<Rightarrow> real \<Rightarrow> real \<Rightarrow> real \<Rightarrow> real \<Rightarrow> Bernstein3D" where
  "Bernstein3D_ctor nX nY nZ xmin xmax ymin ymax zmin zmax =
     \<lparr>m_nx = nX, m_ny = nY, m_nz = nZ,
      m_pars = replicate ((unat nX + 1) * (unat nY + 1) * (unat nZ + 1)) 0,
      m_xmin = xmin, m_xmax = xmax, m_ymin = ymin, m_ymax = ymax,
      m_zmin = zmin, m_zmax = zmax\<rparr>"

definition Bernstein3DSym_ctor :: "ushort \<Rightarrow> real \<Rightarrow> real \<Rightarrow> Bernstein3DSym" where
  "Bernstein3DSym_ctor N xmin xmax =
     \<lparr>sym_m_n = N,
      sym_m_pars = replicate ((unat N + 1) * (unat N + 2) * (unat N + 3) div 6) 0,
      sym_m_xmin = xmin, sym_m_xmax = xmax\<rparr>"

definition Bernstein3DMix_ctor ::
  "ushort \<Rightarrow> ushort \<Rightarrow> real \<Rightarrow> real \<Rightarrow> real \<Rightarrow> real \<Rightarrow> Bernstein3DMix" where
  "Bernstein3DMix_ctor N Nz xmin xmax zmin zmax =
     \<lparr>mix_m_n = N, mix_m_nz = Nz,
      mix_m_pars = replicate ((unat N + 1) * (unat N + 2) div 2 * (unat Nz + 1)) 0,
      mix_m_xmin = xmin, mix_m_xmax = xmax, mix_m_zmin = zmin, mix_m_zmax = zmax\<rparr>"




text \<open>
  Modelled from the spec: \<open>Bernstein3D::integral ()\<close> is declared without a body.  The spec
  gives: the sum of all stored coefficients, each weighted by its basis-triple multiplicity
  times the per-axis full-interval Bernstein integral, which is \<open>1 / (degree + 1)\<close> per axis.
  Every slot of a \<open>Bernstein3D\<close> stands for exactly one basis triple.
\<close>

definition Bernstein_full_integral :: "nat \<Rightarrow> real" where
  "Bernstein_full_integral n = 1 / (real n + 1)"

definition Bernstein3D_multiplicity :: "Bernstein3D \<Rightarrow> nat \<Rightarrow> nat" where
  "Bernstein3D_multiplicity b k = 1"

definition Bernstein3D_integral :: "Bernstein3D \<Rightarrow> real" where
  "Bernstein3D_integral b =
     (\<Sum>k<length (m_pars b).
        m_pars b ! k * real (Bernstein3D_multiplicity b k)
        * (Bernstein_full_integral (unat (m_nx b))
         * Bernstein_full_integral (unat (m_ny b))
         * Bernstein_full_integral (unat (m_nz b))))"

text \<open>
  Modelled from the spec: the operators \<open>+=\<close> are declared without bodies.  The spec gives:
  adding the constant \<open>a\<close> adds \<open>a\<close> divided by the total number of basis triples to every
  stored coefficient, for the symmetric variants to every packed slot.  The basis triples
  are the index triples of the full cube.
\<close>

definition Bernstein3D_triples :: "Bernstein3D \<Rightarrow> nat" where
  "Bernstein3D_triples b = (unat (m_nx b) + 1) * (unat (m_ny b) + 1) * (unat (m_nz b) + 1)"

definition Bernstein3DSym_triples :: "Bernstein3DSym \<Rightarrow> nat" where
  "Bernstein3DSym_triples b = (unat (sym_m_n b) + 1) * (unat (sym_m_n b) + 1) * (unat (sym_m_n b) + 1)"

definition Bernstein3DMix_triples :: "Bernstein3DMix \<Rightarrow> nat" where
  "Bernstein3DMix_triples b = (unat (mix_m_n b) + 1) * (unat (mix_m_n b) + 1) * (unat (mix_m_nz b) + 1)"

definition Bernstein3D_add_assign :: "Bernstein3D \<Rightarrow> real \<Rightarrow> Bernstein3D" where
  "Bernstein3D_add_assign b a =
     b\<lparr>m_pars := map (\<lambda>c. c + a / real (Bernstein3D_triples b)) (m_pars b)\<rparr>"

definition Bernstein3DSym_add_assign :: "Bernstein3DSym \<Rightarrow> real \<Rightarrow> Bernstein3DSym" where
  "Bernstein3DSym_add_assign b a =
     b\<lparr>sym_m_pars := map (\<lambda>c. c + a / real (Bernstein3DSym_triples b)) (sym_m_pars b)\<rparr>"

definition Bernstein3DMix_add_assign :: "Bernstein3DMix \<Rightarrow> real \<Rightarrow> Bernstein3DMix" where
  "Bernstein3DMix_add_assign b a =
     b\<lparr>mix_m_pars := map (\<lambda>c. c + a / real (Bernstein3DMix_triples b)) (mix_m_pars b)\<rparr>"

section \<open>The non-negative wrapper \<open>Positive3D\<close>\<close>

text \<open>
  Modelled from the spec: the class \<open>NSphere\<close> of \<open>Ostap/NSphere.h\<close> is missing.  The spec
  gives: it maps a vector of \<open>M - 1\<close> unconstrained phases to \<open>M\<close> non-negative values that
  sum to one, the squared direction cosines of a point of the unit sphere, and exposes the
  number of phases, the phases and the weight vector.
\<close>

record NSphere =
  m_phases :: "real list"

definition NSphere_nPhi :: "NSphere \<Rightarrow> nat" where
  "NSphere_nPhi s = length (m_phases s)"

fun direction_cosines2 :: "real list \<Rightarrow> real list" where
  "direction_cosines2 [] = [1]"
| "direction_cosines2 (p # ps) =
     (cos p)\<^sup>2 # map (\<lambda>w. (sin p)\<^sup>2 * w) (direction_cosines2 ps)"

definition NSphere_x2 :: "NSphere \<Rightarrow> real list" where
  "NSphere_x2 s = direction_cosines2 (m_phases s)"

record Positive3D =
  m_bernstein :: Bernstein3D
  m_sphere :: NSphere

text \<open>\<open>npars ()\<close> is \<open>m_sphere.nPhi ()\<close> and \<open>bpars ()\<close> is \<open>m_bernstein.pars ()\<close>.\<close>

definition Positive3D_npars :: "Positive3D \<Rightarrow> nat" where
  "Positive3D_npars p = NSphere_nPhi (m_sphere p)"

definition Positive3D_bpars :: "Positive3D \<Rightarrow> real list" where
  "Positive3D_bpars p = m_pars (m_bernstein p)"

definition Positive3D_pars :: "Positive3D \<Rightarrow> real list" where
  "Positive3D_pars p = m_phases (m_sphere p)"

text \<open>
  Modelled from the spec: \<open>updateBernstein\<close>, \<open>setPar\<close> and the constructor of
  \<open>Positive3D\<close> are declared without bodies.  The spec gives: the resync copies the
  weight vector of the sphere verbatim into the coefficient storage of the tensor, slot for
  slot; a setter called with an index outside \<open>[0, npars)\<close> is a no-op returning failure,
  any other call stores the phase and resyncs before it returns; the sphere of a wrapper
  has one weight per coefficient slot.  The phases a new sphere starts from are not given:
  they are taken as 0.
\<close>

definition Positive3D_updateBernstein :: "Positive3D \<Rightarrow> Positive3D" where
  "Positive3D_updateBernstein p =
     p\<lparr>m_bernstein := (m_bernstein p)\<lparr>m_pars := NSphere_x2 (m_sphere p)\<rparr>\<rparr>"

definition Positive3D_setPar :: "Positive3D \<Rightarrow> uint \<Rightarrow> real \<Rightarrow> bool \<times> Positive3D" where
  "Positive3D_setPar p k v =
     (if unat k < Positive3D_npars p
      then (True, Positive3D_updateBernstein
                    (p\<lparr>m_sphere := \<lparr>m_phases = (m_phases (m_sphere p))[unat k := v]\<rparr>\<rparr>))
      else (False, p))"

definition Positive3D_ctor ::
  "ushort \<Rightarrow> ushort \<Rightarrow> ushort \<Rightarrow> real \<Rightarrow> real \<Rightarrow> real \<Rightarrow> real \<Rightarrow> real \<Rightarrow> real \<Rightarrow> Positive3D" where
  "Positive3D_ctor Nx Ny Nz xmin xmax ymin ymax zmin zmax =
     Positive3D_updateBernstein
       \<lparr>m_bernstein = Bernstein3D_ctor Nx Ny Nz xmin xmax ymin ymax zmin zmax,
        m_sphere = \<lparr>m_phases = replicate ((unat Nx + 1) * (unat Ny + 1) * (unat Nz + 1) - 1) 0\<rparr>\<rparr>"

text \<open>The instances a caller can hold: a constructed one, and any one after a setter call.\<close>

inductive Positive3D_reachable :: "Positive3D \<Rightarrow> bool" where
  constructed:
    "Positive3D_reachable (Positive3D_ctor Nx Ny Nz xmin xmax ymin ymax zmin zmax)"
| after_setPar:
    "Positive3D_reachable p \<Longrightarrow> Positive3D_reachable (snd (Positive3D_setPar p k v))"

section \<open>Auxiliary definitions for the proofs\<close>

text \<open>
  The value of the last, non-recursive branch of the two recursive index functions, and the
  largest, middle and smallest component of a triple.
\<close>

definition Bernstein3DSym_slot :: "Bernstein3DSym \<Rightarrow> ushort \<Rightarrow> ushort \<Rightarrow> ushort \<Rightarrow> uint" where
  "Bernstein3DSym_slot b l m n =
     (if l > sym_m_n b then - 1
      else (ucast l * (ucast l + 1) * (ucast l + 2)) div 6
         + (ucast m * (ucast m + 1)) div 2
         + ucast n)"

definition Bernstein3DMix_slot :: "Bernstein3DMix \<Rightarrow> ushort \<Rightarrow> ushort \<Rightarrow> ushort \<Rightarrow> uint" where
  "Bernstein3DMix_slot b l m n =
     (if l > mix_m_n b then - 1
      else if n > mix_m_nz b then - 1
      else ((ucast l * (ucast l + 1)) div 2 + ucast m) * (ucast (mix_m_nz b) + 1) + ucast n)"

definition top3 :: "ushort \<Rightarrow> ushort \<Rightarrow> ushort \<Rightarrow> ushort" where
  "top3 l m n = max l (max m n)"

definition mid3 :: "ushort \<Rightarrow> ushort \<Rightarrow> ushort \<Rightarrow> ushort" where
  "mid3 l m n = max (min l m) (min (max l m) n)"

definition low3 :: "ushort \<Rightarrow> ushort \<Rightarrow> ushort \<Rightarrow> ushort" where
  "low3 l m n = min l (min m n)"

text \<open>The instances used as concrete inputs below.\<close>

definition unit_cube_111 :: Bernstein3D where
  "unit_cube_111 = Bernstein3D_ctor 1 1 1 0 1 0 1 0 1"

definition sym_2 :: Bernstein3DSym where
  "sym_2 = Bernstein3DSym_ctor 2 0 1"

definition mix_12 :: Bernstein3DMix where
  "mix_12 = Bernstein3DMix_ctor 1 2 0 4 (- 2) 2"



definition Bernstein3D_inside :: "Bernstein3D \<Rightarrow> real \<Rightarrow> real \<Rightarrow> real \<Rightarrow> bool" where
  "Bernstein3D_inside b x y z \<longleftrightarrow>
     m_xmin b \<le> x \<and> x \<le> m_xmax b \<and> m_ymin b \<le> y \<and> y \<le> m_ymax b
     \<and> m_zmin b \<le> z \<and> z \<le> m_zmax b"

definition Bernstein3DSym_inside :: "Bernstein3DSym \<Rightarrow> real \<Rightarrow> real \<Rightarrow> real \<Rightarrow> bool" where
  "Bernstein3DSym_inside b x y z \<longleftrightarrow>
     sym_m_xmin b \<le> x \<and> x \<le> sym_m_xmax b \<and> sym_m_xmin b \<le> y \<and> y \<le> sym_m_xmax b
     \<and> sym_m_xmin b \<le> z \<and> z \<le> sym_m_xmax b"

definition Bernstein3DMix_inside :: "Bernstein3DMix \<Rightarrow> real \<Rightarrow> real \<Rightarrow> real \<Rightarrow> bool" where
  "Bernstein3DMix_inside b x y z \<longleftrightarrow>
     mix_m_xmin b \<le> x \<and> x \<le> mix_m_xmax b \<and> mix_m_xmin b \<le> y \<and> y \<le> mix_m_xmax b
     \<and> mix_m_zmin b \<le> z \<and> z \<le> mix_m_zmax b"

text \<open>
  What every reachable \<open>Positive3D\<close> satisfies: the sphere has one phase less than the
  tensor has basis triples, and the coefficients of the tensor are the weights of the sphere.
\<close>

definition Positive3D_inv :: "Positive3D \<Rightarrow> bool" where
  "Positive3D_inv p \<longleftrightarrow>
     length (m_phases (m_sphere p)) + 1 = Bernstein3D_triples (m_bernstein p)
     \<and> m_pars (m_bernstein p) = NSphere_x2 (m_sphere p)"

text \<open>More instances used as concrete inputs below.\<close>

definition ones_111 :: Bernstein3D where
  "ones_111 = unit_cube_111\<lparr>m_pars := replicate 8 1\<rparr>"


definition sym_2_ones :: Bernstein3DSym where
  "sym_2_ones = sym_2\<lparr>sym_m_pars := replicate 10 1\<rparr>"

definition mix_12_ones :: Bernstein3DMix where
  "mix_12_ones = mix_12\<lparr>mix_m_pars := replicate 9 1\<rparr>"

definition huge_ones :: Bernstein3D where
  "huge_ones = (Bernstein3D_ctor 1625 1625 1625 0 1 0 1 0 1)\<lparr>m_pars := replicate 4298942376 1\<rparr>"

definition positive_111 :: Positive3D where
  "positive_111 = Positive3D_ctor 1 1 1 0 1 0 1 0 1"

text \<open>
  The intermediate results of the two round trips on an axis \<open>[lo, hi]\<close>, in the order the
  transforms compute them, and the condition that each exact result, before it is rounded,
  is zero or in the normal range.
\<close>

definition x_of_tx_normal :: "real \<Rightarrow> real \<Rightarrow> real \<Rightarrow> bool" where
  "x_of_tx_normal lo hi v =
     (let d = double_sub hi lo; n = double_sub v lo; q = double_div n d; p = double_mul d q
      in double_normal (hi - lo) \<and> double_normal (v - lo) \<and> double_normal (n / d)
         \<and> double_normal (d * q) \<and> double_normal (lo + p))"

definition tx_of_x_normal :: "real \<Rightarrow> real \<Rightarrow> real \<Rightarrow> bool" where
  "tx_of_x_normal lo hi t =
     (let d = double_sub hi lo; p = double_mul d t; s = double_add lo p; n = double_sub s lo
      in double_normal (hi - lo) \<and> double_normal (d * t) \<and> double_normal (lo + p)
         \<and> double_normal (s - lo) \<and> double_normal (n / d))"

text \<open>
  The \<open>double\<close> nearest to one tenth (the value of the literal \<open>0.1\<close>), and the three tensor
  classes on the interval \<open>[-1, 3]\<close> for every axis.
\<close>

definition double_tenth :: real where
  "double_tenth = 3602879701896397 / 36028797018963968"

definition cube_m13 :: Bernstein3D where
  "cube_m13 = Bernstein3D_ctor 1 1 1 (- 1) 3 (- 1) 3 (- 1) 3"

definition sym_m13 :: Bernstein3DSym where
  "sym_m13 = Bernstein3DSym_ctor 2 (- 1) 3"

definition mix_m13 :: Bernstein3DMix where
  "mix_m13 = Bernstein3DMix_ctor 1 2 (- 1) 3 (- 1) 3"

section \<open>Termination of the index canonicalisation\<close>

lemma inversions_le_3: "inversions l m n \<le> 3"
  by (simp add: inversions_def)

lemma Bernstein3DSym_index_fuel_enough:
  "inversions l m n \<le> f \<Longrightarrow>
   Bernstein3DSym_index_fuel f b l m n = Some (Bernstein3DSym_index b l m n)"
proof (induction b l m n arbitrary: f rule: Bernstein3DSym_index.induct)
  case (1 b l m n)
  show ?case
  proof (cases "l < m")
    case True
    then obtain f' where f: "f = Suc f'"
      using "1.prems" by (cases f) (auto simp: inversions_def)
    have "inversions m l n \<le> f'"
      using True "1.prems" f by (auto simp: inversions_def split: if_splits)
    from "1.IH"(1) [OF True this] show ?thesis
      using True f
      by (simp add: Bernstein3DSym_index_fuel.simps [of "Suc f'" b l m n]
          Bernstein3DSym_index.simps [of b l m n])
  next
    case False
    show ?thesis
    proof (cases "m < n")
      case True
      then obtain f' where f: "f = Suc f'"
        using "1.prems" by (cases f) (auto simp: inversions_def)
      have "inversions l n m \<le> f'"
        using True False "1.prems" f by (auto simp: inversions_def split: if_splits)
      from "1.IH"(2) [OF False True this] show ?thesis
        using True False f
        by (simp add: Bernstein3DSym_index_fuel.simps [of "Suc f'" b l m n]
            Bernstein3DSym_index.simps [of b l m n])
    next
      case sorted: False
      then show ?thesis
        using False
        by (simp add: Bernstein3DSym_index_fuel.simps [of f b l m n]
            Bernstein3DSym_index.simps [of b l m n])
    qed
  qed
qed

lemma Bernstein3DMix_index_fuel_enough:
  "(if l < m then 1 else 0) \<le> f \<Longrightarrow>
   Bernstein3DMix_index_fuel f b l m n = Some (Bernstein3DMix_index b l m n)"
proof (cases "l < m")
  case True
  assume "(if l < m then 1 else 0) \<le> f"
  then obtain f' where f: "f = Suc f'"
    using True by (cases f) auto
  have nl: "\<not> m < l"
    using True by simp
  have "Bernstein3DMix_index_fuel f' b m l n = Some (Bernstein3DMix_index b m l n)"
    using nl
    by (simp add: Bernstein3DMix_index_fuel.simps [of f' b m l n]
        Bernstein3DMix_index.simps [of b m l n])
  then show ?thesis
    using True
    by (simp add: f Bernstein3DMix_index_fuel.simps [of "Suc f'" b l m n]
        Bernstein3DMix_index.simps [of b l m n])
next
  case False
  then show ?thesis
    by (simp add: Bernstein3DMix_index_fuel.simps [of f b l m n]
        Bernstein3DMix_index.simps [of b l m n])
qed

text \<open>
  C10.  Both recursive index functions return for every triple of \<open>unsigned short\<close>
  values: \<open>Bernstein3DSym::index\<close> reaches its non-recursive branch after at most three
  self-calls and \<open>Bernstein3DMix::index\<close> after at most one, so a budget of three,
  respectively one, self-calls always yields a result, and it is the result of the total
  function.  Each self-call swaps two components that are out of order and so removes
  exactly one ordering inversion, and a triple without inversions takes a non-recursive
  branch; the number of inversions is the measure of the two termination proofs.
\<close>

theorem index_canonicalisation_terminates:
  "Bernstein3DSym_index_fuel 3 b l m n = Some (Bernstein3DSym_index b l m n)
   \<and> Bernstein3DMix_index_fuel 1 c l m n = Some (Bernstein3DMix_index c l m n)
   \<and> inversions l m n
       = (if l < m then Suc (inversions m l n)
          else if m < n then Suc (inversions l n m)
          else 0)"
proof (intro conjI)
  show "Bernstein3DSym_index_fuel 3 b l m n = Some (Bernstein3DSym_index b l m n)"
    by (rule Bernstein3DSym_index_fuel_enough) (rule inversions_le_3)
  show "Bernstein3DMix_index_fuel 1 c l m n = Some (Bernstein3DMix_index c l m n)"
    by (rule Bernstein3DMix_index_fuel_enough) simp
  show "inversions l m n
       = (if l < m then Suc (inversions m l n)
          else if m < n then Suc (inversions l n m)
          else 0)"
    by (auto simp: inversions_def)
qed

section \<open>Symmetry of the packed index\<close>

lemma Bernstein3DSym_index_canonical:
  "Bernstein3DSym_index b l m n = Bernstein3DSym_slot b (top3 l m n) (mid3 l m n) (low3 l m n)"
proof (induction b l m n rule: Bernstein3DSym_index.induct)
  case (1 b l m n)
  show ?case
  proof (cases "l < m")
    case True
    have "Bernstein3DSym_index b l m n = Bernstein3DSym_index b m l n"
      using True by (simp add: Bernstein3DSym_index.simps [of b l m n])
    also have "\<dots> = Bernstein3DSym_slot b (top3 m l n) (mid3 m l n) (low3 m l n)"
      by (rule "1.IH"(1) [OF True])
    also have "top3 m l n = top3 l m n"
      by (auto simp: top3_def max_def)
    also have "mid3 m l n = mid3 l m n"
      by (auto simp: mid3_def max_def min_def)
    also have "low3 m l n = low3 l m n"
      by (auto simp: low3_def min_def)
    finally show ?thesis .
  next
    case False
    show ?thesis
    proof (cases "m < n")
      case True
      have "Bernstein3DSym_index b l m n = Bernstein3DSym_index b l n m"
        using True False by (simp add: Bernstein3DSym_index.simps [of b l m n])
      also have "\<dots> = Bernstein3DSym_slot b (top3 l n m) (mid3 l n m) (low3 l n m)"
        by (rule "1.IH"(2) [OF False True])
      also have "top3 l n m = top3 l m n"
        by (auto simp: top3_def max_def)
      also have "mid3 l n m = mid3 l m n"
        by (auto simp: mid3_def max_def min_def)
      also have "low3 l n m = low3 l m n"
        by (auto simp: low3_def min_def)
      finally show ?thesis .
    next
      case sorted: False
      then show ?thesis
        using False
        by (auto simp add: Bernstein3DSym_index.simps [of b l m n] Bernstein3DSym_slot_def
            top3_def mid3_def low3_def max_def min_def)
    qed
  qed
qed

lemma Bernstein3DSym_index_swap12:
  "Bernstein3DSym_index b l m n = Bernstein3DSym_index b m l n"
proof -
  have "top3 m l n = top3 l m n"
    by (auto simp: top3_def max_def)
  moreover have "mid3 m l n = mid3 l m n"
    by (auto simp: mid3_def max_def min_def)
  moreover have "low3 m l n = low3 l m n"
    by (auto simp: low3_def min_def)
  ultimately show ?thesis
    by (simp only: Bernstein3DSym_index_canonical)
qed

lemma Bernstein3DSym_index_swap23:
  "Bernstein3DSym_index b l m n = Bernstein3DSym_index b l n m"
proof -
  have "top3 l n m = top3 l m n"
    by (auto simp: top3_def max_def)
  moreover have "mid3 l n m = mid3 l m n"
    by (auto simp: mid3_def max_def min_def)
  moreover have "low3 l n m = low3 l m n"
    by (auto simp: low3_def min_def)
  ultimately show ?thesis
    by (simp only: Bernstein3DSym_index_canonical)
qed

text \<open>
  C2.  For every \<open>Bernstein3DSym\<close> and every triple \<open>(l, m, n)\<close>, in range or not, the
  index function maps all six permutations of the triple to the same storage slot, and so
  the coefficient getter \<open>par (l, m, n)\<close> returns the same value for all six.
\<close>

theorem Bernstein3DSym_par_permutation_invariant:
  "Bernstein3DSym_index b l m n = Bernstein3DSym_index b m l n
   \<and> Bernstein3DSym_index b l m n = Bernstein3DSym_index b l n m
   \<and> Bernstein3DSym_index b l m n = Bernstein3DSym_index b n m l
   \<and> Bernstein3DSym_index b l m n = Bernstein3DSym_index b m n l
   \<and> Bernstein3DSym_index b l m n = Bernstein3DSym_index b n l m
   \<and> Bernstein3DSym_par3 b l m n = Bernstein3DSym_par3 b m l n
   \<and> Bernstein3DSym_par3 b l m n = Bernstein3DSym_par3 b l n m
   \<and> Bernstein3DSym_par3 b l m n = Bernstein3DSym_par3 b n m l
   \<and> Bernstein3DSym_par3 b l m n = Bernstein3DSym_par3 b m n l
   \<and> Bernstein3DSym_par3 b l m n = Bernstein3DSym_par3 b n l m"
proof -
  have a: "Bernstein3DSym_index b l m n = Bernstein3DSym_index b m l n"
    by (rule Bernstein3DSym_index_swap12)
  have c: "Bernstein3DSym_index b l m n = Bernstein3DSym_index b l n m"
    by (rule Bernstein3DSym_index_swap23)
  have d: "Bernstein3DSym_index b l m n = Bernstein3DSym_index b m n l"
    using Bernstein3DSym_index_swap12 [of b l m n] Bernstein3DSym_index_swap23 [of b m l n]
    by simp
  have e: "Bernstein3DSym_index b l m n = Bernstein3DSym_index b n l m"
    using Bernstein3DSym_index_swap23 [of b l m n] Bernstein3DSym_index_swap12 [of b l n m]
    by simp
  have f: "Bernstein3DSym_index b l m n = Bernstein3DSym_index b n m l"
    using d Bernstein3DSym_index_swap12 [of b m n l] by simp
  show ?thesis
    using a c d e f by (simp add: Bernstein3DSym_par3_def)
qed

section \<open>Unfolding the instances and the edge accessors\<close>

lemmas instance_defs = unit_cube_111_def sym_2_def mix_12_def
  Bernstein3D_ctor_def Bernstein3DSym_ctor_def Bernstein3DMix_ctor_def

lemmas edge_defs = Bernstein3DSym_xmin_def Bernstein3DSym_xmax_def Bernstein3DSym_ymin_def
  Bernstein3DSym_ymax_def Bernstein3DSym_zmin_def Bernstein3DSym_zmax_def
  Bernstein3DMix_xmin_def Bernstein3DMix_xmax_def Bernstein3DMix_ymin_def
  Bernstein3DMix_ymax_def Bernstein3DMix_zmin_def Bernstein3DMix_zmax_def

section \<open>Out-of-range coefficient indices\<close>

lemma unat_minus1_32: "unat (- 1 :: uint) = 4294967295"
  by (simp add: unsigned_minus_1_eq_mask mask_eq_exp_minus_1)

lemma Bernstein3D_index_out_of_range:
  "l > m_nx b \<or> m > m_ny b \<or> n > m_nz b \<Longrightarrow> Bernstein3D_index b l m n = - 1"
  by (simp add: Bernstein3D_index_def)

lemma Bernstein3DSym_index_out_of_range:
  "l > sym_m_n b \<or> m > sym_m_n b \<or> n > sym_m_n b \<Longrightarrow> Bernstein3DSym_index b l m n = - 1"
proof (induction b l m n rule: Bernstein3DSym_index.induct)
  case (1 b l m n)
  show ?case
  proof (cases "l < m")
    case True
    then show ?thesis using "1.IH"(1) "1.prems"
      by (simp add: Bernstein3DSym_index.simps [of b l m n]) blast
  next
    case False
    show ?thesis
    proof (cases "m < n")
      case True
      then show ?thesis using False "1.IH"(2) "1.prems"
        by (simp add: Bernstein3DSym_index.simps [of b l m n]) blast
    next
      case F2: False
      then have "l > sym_m_n b" using False "1.prems" by auto
      then show ?thesis using False F2
        by (simp add: Bernstein3DSym_index.simps [of b l m n])
    qed
  qed
qed

lemma Bernstein3DMix_index_out_of_range:
  "l > mix_m_n b \<or> m > mix_m_n b \<or> n > mix_m_nz b \<Longrightarrow> Bernstein3DMix_index b l m n = - 1"
proof (cases "l < m")
  case True
  assume a: "l > mix_m_n b \<or> m > mix_m_n b \<or> n > mix_m_nz b"
  have nl: "\<not> m < l" using True by simp
  have "m > mix_m_n b \<or> n > mix_m_nz b" using a True by auto
  then have "Bernstein3DMix_index b m l n = - 1"
    using nl by (auto simp add: Bernstein3DMix_index.simps [of b m l n])
  then show ?thesis using True by (simp add: Bernstein3DMix_index.simps [of b l m n])
next
  case False
  assume a: "l > mix_m_n b \<or> m > mix_m_n b \<or> n > mix_m_nz b"
  then have "l > mix_m_n b \<or> n > mix_m_nz b" using False by auto
  then show ?thesis using False
    by (auto simp add: Bernstein3DMix_index.simps [of b l m n])
qed

text \<open>
  C7 (amended).  For every tensor variant and every flat index \<open>k \<ge> npars ()\<close>, the getter
  returns 0 and the setters (\<open>setPar\<close>, \<open>setParameter\<close>) return \<open>false\<close> and leave the
  object as it was.  For every tensor variant with fewer than \<open>2^32\<close> stored coefficients
  and every triple with a component above its degree bound, the getter \<open>par (l, m, n)\<close>
  returns 0 and the setter \<open>setPar (l, m, n, value)\<close> returns \<open>false\<close> and leaves the object
  as it was.  Every function of the model is total and returns a value: there is no
  exceptional outcome.
\<close>

theorem out_of_range_index_rejected:
  "(Bernstein3D_npars b \<le> unat k \<longrightarrow>
      Bernstein3D_par b k = 0 \<and> Bernstein3D_setPar b k v = (False, b)
      \<and> Bernstein3D_setParameter b k v = (False, b))
   \<and> (Bernstein3DSym_npars s \<le> unat k \<longrightarrow>
      Bernstein3DSym_par s k = 0 \<and> Bernstein3DSym_setPar s k v = (False, s)
      \<and> Bernstein3DSym_setParameter s k v = (False, s))
   \<and> (Bernstein3DMix_npars c \<le> unat k \<longrightarrow>
      Bernstein3DMix_par c k = 0 \<and> Bernstein3DMix_setPar c k v = (False, c)
      \<and> Bernstein3DMix_setParameter c k v = (False, c))
   \<and> (Bernstein3D_npars b < 2 ^ 32 \<and> (l > m_nx b \<or> m > m_ny b \<or> n > m_nz b) \<longrightarrow>
      Bernstein3D_par3 b l m n = 0 \<and> Bernstein3D_setPar3 b l m n v = (False, b))
   \<and> (Bernstein3DSym_npars s < 2 ^ 32 \<and> (l > sym_m_n s \<or> m > sym_m_n s \<or> n > sym_m_n s) \<longrightarrow>
      Bernstein3DSym_par3 s l m n = 0 \<and> Bernstein3DSym_setPar3 s l m n v = (False, s))
   \<and> (Bernstein3DMix_npars c < 2 ^ 32 \<and> (l > mix_m_n c \<or> m > mix_m_n c \<or> n > mix_m_nz c) \<longrightarrow>
      Bernstein3DMix_par3 c l m n = 0 \<and> Bernstein3DMix_setPar3 c l m n v = (False, c))"
proof -
  have flat3: "Bernstein3D_npars b \<le> unat k \<longrightarrow>
      Bernstein3D_par b k = 0 \<and> Bernstein3D_setPar b k v = (False, b)
      \<and> Bernstein3D_setParameter b k v = (False, b)"
    by (simp add: Bernstein3D_npars_def Bernstein3D_par_def Bernstein3D_setPar_def
        Bernstein3D_setParameter_def)
  have flats: "Bernstein3DSym_npars s \<le> unat k \<longrightarrow>
      Bernstein3DSym_par s k = 0 \<and> Bernstein3DSym_setPar s k v = (False, s)
      \<and> Bernstein3DSym_setParameter s k v = (False, s)"
    by (simp add: Bernstein3DSym_npars_def Bernstein3DSym_par_def Bernstein3DSym_setPar_def
        Bernstein3DSym_setParameter_def)
  have flatm: "Bernstein3DMix_npars c \<le> unat k \<longrightarrow>
      Bernstein3DMix_par c k = 0 \<and> Bernstein3DMix_setPar c k v = (False, c)
      \<and> Bernstein3DMix_setParameter c k v = (False, c)"
    by (simp add: Bernstein3DMix_npars_def Bernstein3DMix_par_def Bernstein3DMix_setPar_def
        Bernstein3DMix_setParameter_def)
  have t3: "Bernstein3D_npars b < 2 ^ 32 \<and> (l > m_nx b \<or> m > m_ny b \<or> n > m_nz b) \<longrightarrow>
      Bernstein3D_par3 b l m n = 0 \<and> Bernstein3D_setPar3 b l m n v = (False, b)"
    by (simp add: Bernstein3D_index_out_of_range Bernstein3D_par3_def Bernstein3D_setPar3_def
        Bernstein3D_par_def Bernstein3D_npars_def unat_minus1_32)
  have ts: "Bernstein3DSym_npars s < 2 ^ 32 \<and> (l > sym_m_n s \<or> m > sym_m_n s \<or> n > sym_m_n s) \<longrightarrow>
      Bernstein3DSym_par3 s l m n = 0 \<and> Bernstein3DSym_setPar3 s l m n v = (False, s)"
    by (simp add: Bernstein3DSym_index_out_of_range Bernstein3DSym_par3_def
        Bernstein3DSym_setPar3_def Bernstein3DSym_par_def Bernstein3DSym_npars_def unat_minus1_32)
  have tm: "Bernstein3DMix_npars c < 2 ^ 32 \<and> (l > mix_m_n c \<or> m > mix_m_n c \<or> n > mix_m_nz c) \<longrightarrow>
      Bernstein3DMix_par3 c l m n = 0 \<and> Bernstein3DMix_setPar3 c l m n v = (False, c)"
    by (simp add: Bernstein3DMix_index_out_of_range Bernstein3DMix_par3_def
        Bernstein3DMix_setPar3_def Bernstein3DMix_par_def Bernstein3DMix_npars_def unat_minus1_32)
  show ?thesis
    using flat3 flats flatm t3 ts tm by blast
qed

lemmas ones_defs = ones_111_def sym_2_ones_def mix_12_ones_def instance_defs

theorem out_of_range_index_rejected_witness:
  "Bernstein3D_npars ones_111 = 8 \<and> Bernstein3DSym_npars sym_2_ones = 10
   \<and> Bernstein3DMix_npars mix_12_ones = 9
   \<and> Bernstein3D_par ones_111 7 = 1 \<and> Bernstein3D_par3 ones_111 1 1 1 = 1
   \<and> Bernstein3DSym_par sym_2_ones 9 = 1 \<and> Bernstein3DSym_par3 sym_2_ones 2 2 2 = 1
   \<and> Bernstein3DMix_par mix_12_ones 8 = 1 \<and> Bernstein3DMix_par3 mix_12_ones 1 1 2 = 1
   \<and> Bernstein3D_par ones_111 8 = 0
   \<and> Bernstein3D_setPar ones_111 8 5 = (False, ones_111)
   \<and> Bernstein3D_setParameter ones_111 8 5 = (False, ones_111)
   \<and> Bernstein3DSym_par sym_2_ones 10 = 0
   \<and> Bernstein3DSym_setPar sym_2_ones 10 5 = (False, sym_2_ones)
   \<and> Bernstein3DSym_setParameter sym_2_ones 10 5 = (False, sym_2_ones)
   \<and> Bernstein3DMix_par mix_12_ones 9 = 0
   \<and> Bernstein3DMix_setPar mix_12_ones 9 5 = (False, mix_12_ones)
   \<and> Bernstein3DMix_setParameter mix_12_ones 9 5 = (False, mix_12_ones)
   \<and> (2 :: ushort) > m_nx ones_111 \<and> (3 :: ushort) > sym_m_n sym_2_ones
   \<and> (3 :: ushort) > mix_m_nz mix_12_ones
   \<and> Bernstein3D_par3 ones_111 2 0 0 = 0
   \<and> Bernstein3D_setPar3 ones_111 2 0 0 5 = (False, ones_111)
   \<and> Bernstein3DSym_par3 sym_2_ones 0 3 1 = 0
   \<and> Bernstein3DSym_setPar3 sym_2_ones 0 3 1 5 = (False, sym_2_ones)
   \<and> Bernstein3DMix_par3 mix_12_ones 1 0 3 = 0
   \<and> Bernstein3DMix_setPar3 mix_12_ones 1 0 3 5 = (False, mix_12_ones)"
proof -
  have n: "Bernstein3D_npars ones_111 = 8" "Bernstein3DSym_npars sym_2_ones = 10"
    "Bernstein3DMix_npars mix_12_ones = 9"
    by (simp_all add: ones_defs Bernstein3D_npars_def Bernstein3DSym_npars_def
        Bernstein3DMix_npars_def)
  have d: "m_nx ones_111 = 1" "m_ny ones_111 = 1" "m_nz ones_111 = 1"
    "sym_m_n sym_2_ones = 2" "mix_m_n mix_12_ones = 1" "mix_m_nz mix_12_ones = 2"
    by (simp_all add: ones_defs)
  have p: "m_pars ones_111 = replicate 8 1" "sym_m_pars sym_2_ones = replicate 10 1"
    "mix_m_pars mix_12_ones = replicate 9 1"
    by (simp_all add: ones_defs)
  have flat: "Bernstein3D_par ones_111 7 = 1" "Bernstein3DSym_par sym_2_ones 9 = 1"
    "Bernstein3DMix_par mix_12_ones 8 = 1"
    by (simp_all add: Bernstein3D_par_def Bernstein3DSym_par_def Bernstein3DMix_par_def p)
  have i3: "Bernstein3D_index ones_111 1 1 1 = 7"
    by (simp add: Bernstein3D_index_def d)
  have isym: "Bernstein3DSym_index sym_2_ones 2 2 2 = 9"
    by (simp add: Bernstein3DSym_index.simps [of sym_2_ones 2 2 2] d)
  have imix: "Bernstein3DMix_index mix_12_ones 1 1 2 = 8"
    by (simp add: Bernstein3DMix_index.simps [of mix_12_ones 1 1 2] d)
  have inr: "Bernstein3D_par3 ones_111 1 1 1 = 1" "Bernstein3DSym_par3 sym_2_ones 2 2 2 = 1"
    "Bernstein3DMix_par3 mix_12_ones 1 1 2 = 1"
    by (simp_all add: Bernstein3D_par3_def Bernstein3DSym_par3_def Bernstein3DMix_par3_def
        i3 isym imix Bernstein3D_par_def Bernstein3DSym_par_def Bernstein3DMix_par_def p)
  have out: "(2 :: ushort) > m_nx ones_111" "(3 :: ushort) > sym_m_n sym_2_ones"
    "(3 :: ushort) > mix_m_nz mix_12_ones"
    by (simp_all add: d)
  show ?thesis
    using n flat inr out
      out_of_range_index_rejected [of ones_111 8 5 sym_2_ones mix_12_ones 2 0 0]
      out_of_range_index_rejected [of ones_111 10 5 sym_2_ones mix_12_ones 0 3 1]
      out_of_range_index_rejected [of ones_111 9 5 sym_2_ones mix_12_ones 1 0 3]
    by simp
qed

theorem out_of_range_triple_counterexample:
  "Bernstein3D_npars huge_ones = 4298942376
   \<and> m_nx huge_ones < 1626
   \<and> Bernstein3D_index huge_ones 1626 0 0 = - 1
   \<and> Bernstein3D_par3 huge_ones 1626 0 0 = 1
   \<and> fst (Bernstein3D_setPar3 huge_ones 1626 0 0 5)"
proof -
  have n: "length (m_pars huge_ones) = 4298942376" and d: "m_nx huge_ones = 1625"
    by (simp_all add: huge_ones_def Bernstein3D_ctor_def)
  have p: "m_pars huge_ones ! 4294967295 = 1"
    by (simp add: huge_ones_def Bernstein3D_ctor_def)
  have i: "Bernstein3D_index huge_ones 1626 0 0 = - 1"
    by (simp add: Bernstein3D_index_def d)
  show ?thesis
    by (simp add: Bernstein3D_npars_def Bernstein3D_par3_def Bernstein3D_par_def
        Bernstein3D_setPar3_def Bernstein3D_setPar_def i unat_minus1_32 n p d)
qed

section \<open>The basic-polynomial helpers\<close>

text \<open>
  C6.  \<open>basicX (i, x)\<close> tests \<open>x < m_xmax\<close> where the claim needs \<open>x > m_xmax\<close>: inside
  the interval it returns 0 instead of the basis value.  On the degree-\<open>(1, 1, 1)\<close>
  unit cube, \<open>basicX (0, 1/2)\<close> is 0, while the basis value \<open>B 0 1\<close> at the local
  coordinate \<open>(1/2 - xmin) / (xmax - xmin)\<close> is
  \<open>1/2\<close> (and so is the value of the clamped basis polynomial \<open>m_bx[0]\<close>); the helpers of
  the symmetric classes read the same way.
\<close>

theorem basicX_zero_inside_interval:
  "Bernstein3D_basicX unit_cube_111 0 (1 / 2) = 0
   \<and> Bernstein_basis 1 0
       ((1 / 2 - m_xmin unit_cube_111) / (m_xmax unit_cube_111 - m_xmin unit_cube_111)) = 1 / 2
   \<and> Bernstein_basic 1 0 (m_xmin unit_cube_111) (m_xmax unit_cube_111) (1 / 2) = 1 / 2
   \<and> m_xmin unit_cube_111 \<le> 1 / 2 \<and> 1 / 2 \<le> m_xmax unit_cube_111
   \<and> Bernstein3DSym_basicX sym_2 0 (1 / 2) = 0
   \<and> Bernstein3DMix_basicX mix_12 0 (1 / 2) = 0"
  by (simp add: Bernstein3D_basicX_def Bernstein3DSym_basicX_def Bernstein3DMix_basicX_def
      instance_defs Bernstein_basis_def Bernstein_local_def Bernstein_basic_def
      Bernstein3DSym_xmin_def Bernstein3DSym_xmax_def Bernstein3DMix_xmin_def
      Bernstein3DMix_xmax_def)

section \<open>Partition of unity and the full-domain integral\<close>




lemma Bernstein3D_integral_collapsed:
  "Bernstein3D_integral b
   = sum_list (m_pars b) / (real (unat (m_nx b) + 1) * real (unat (m_ny b) + 1) * real (unat (m_nz b) + 1))"
proof -
  have "Bernstein3D_integral b
      = (\<Sum>k<length (m_pars b). m_pars b ! k)
        * (Bernstein_full_integral (unat (m_nx b)) * Bernstein_full_integral (unat (m_ny b))
           * Bernstein_full_integral (unat (m_nz b)))"
    by (simp add: Bernstein3D_integral_def Bernstein3D_multiplicity_def sum_distrib_right)
  also have "(\<Sum>k<length (m_pars b). m_pars b ! k) = sum_list (m_pars b)"
    by (simp add: sum_list_sum_nth atLeast0LessThan)
  finally show ?thesis
    by (simp add: Bernstein_full_integral_def add.commute)
qed

text \<open>
  C4.  For every \<open>Bernstein3D\<close>, \<open>integral ()\<close> (the sum of the stored coefficients, each
  weighted by its multiplicity and by the three per-axis full-interval integrals) equals
  the sum of all stored coefficients divided by \<open>(nx+1)(ny+1)(nz+1)\<close>.
\<close>

theorem Bernstein3D_integral_formula:
  "Bernstein3D_integral b
   = sum_list (m_pars b)
     / (real (unat (m_nx b) + 1) * real (unat (m_ny b) + 1) * real (unat (m_nz b) + 1))"
  by (rule Bernstein3D_integral_collapsed)

section \<open>Every basis triple of the cube has a storage slot\<close>









lemma Bernstein3DSym_index_sorted:
  "Bernstein3DSym_index b l m n =
   Bernstein3DSym_slot b (max l (max m n)) (max (min l m) (min (max l m) n)) (min l (min m n))"
  by (simp only: Bernstein3DSym_index_canonical top3_def mid3_def low3_def)









lemma Bernstein3DMix_index_canonical:
  "Bernstein3DMix_index b l m n = Bernstein3DMix_slot b (max l m) (min l m) n"
proof (cases "l < m")
  case True
  have nl: "\<not> m < l" using True by simp
  have "Bernstein3DMix_index b l m n = Bernstein3DMix_index b m l n"
    using True by (simp add: Bernstein3DMix_index.simps [of b l m n])
  also have "\<dots> = Bernstein3DMix_slot b m l n"
    using nl by (simp add: Bernstein3DMix_index.simps [of b m l n] Bernstein3DMix_slot_def)
  finally have e: "Bernstein3DMix_index b l m n = Bernstein3DMix_slot b m l n" .
  have "max l m = m" "min l m = l" using True by (auto simp: max_def min_def)
  then show ?thesis using e by (simp only:)
next
  case False
  then show ?thesis
    by (auto simp add: Bernstein3DMix_index.simps [of b l m n] Bernstein3DMix_slot_def max_def min_def)
qed





section \<open>Evaluation under a shift of the coefficients\<close>



lemma Bernstein3D_index_add_assign [simp]:
  "Bernstein3D_index (Bernstein3D_add_assign b a) l m n = Bernstein3D_index b l m n"
  by (simp add: Bernstein3D_index_def Bernstein3D_add_assign_def)






lemma Bernstein3DSym_index_add_assign [simp]:
  "Bernstein3DSym_index (Bernstein3DSym_add_assign b a) l m n = Bernstein3DSym_index b l m n"
  by (simp add: Bernstein3DSym_index_sorted Bernstein3DSym_slot_def Bernstein3DSym_add_assign_def)

lemma Bernstein3DMix_index_add_assign [simp]:
  "Bernstein3DMix_index (Bernstein3DMix_add_assign b a) l m n = Bernstein3DMix_index b l m n"
  by (simp add: Bernstein3DMix_index_canonical Bernstein3DMix_slot_def Bernstein3DMix_add_assign_def)





section \<open>All coefficients equal to one\<close>



section \<open>Adding a constant\<close>




section \<open>The wrapper \<open>Positive3D\<close>\<close>

lemma direction_cosines2_length: "length (direction_cosines2 ps) = length ps + 1"
  by (induction ps) simp_all

lemma direction_cosines2_nonneg: "\<forall>w\<in>set (direction_cosines2 ps). 0 \<le> w"
  by (induction ps) auto

lemma sum_list_scaled: "sum_list (map (\<lambda>w. s * w) ws) = s * sum_list ws" for s :: real
  by (induction ws) (simp_all add: distrib_left)

lemma direction_cosines2_sum: "sum_list (direction_cosines2 ps) = 1"
proof (induction ps)
  case Nil
  then show ?case by simp
next
  case (Cons p ps)
  have "sum_list (direction_cosines2 (p # ps)) = (cos p)\<^sup>2 + (sin p)\<^sup>2 * 1"
    by (simp add: sum_list_scaled Cons.IH)
  then show ?case by (simp add: add.commute)
qed

lemma Positive3D_ctor_inv:
  "Positive3D_inv (Positive3D_ctor Nx Ny Nz xmin xmax ymin ymax zmin zmax)"
  by (simp add: Positive3D_inv_def Positive3D_ctor_def Positive3D_updateBernstein_def
      Bernstein3D_ctor_def Bernstein3D_triples_def)

lemma Positive3D_setPar_inv:
  "Positive3D_inv p \<Longrightarrow> Positive3D_inv (snd (Positive3D_setPar p k v))"
  by (simp add: Positive3D_inv_def Positive3D_setPar_def Positive3D_updateBernstein_def
      Bernstein3D_triples_def)

lemma Positive3D_reachable_inv: "Positive3D_reachable p \<Longrightarrow> Positive3D_inv p"
  by (induction rule: Positive3D_reachable.induct)
     (simp_all add: Positive3D_ctor_inv Positive3D_setPar_inv)

lemma positive_111_reachable: "Positive3D_reachable positive_111"
  unfolding positive_111_def by (rule Positive3D_reachable.constructed)

lemma positive_111_degrees:
  "m_nx (m_bernstein positive_111) = 1" "m_ny (m_bernstein positive_111) = 1"
  "m_nz (m_bernstein positive_111) = 1"
  by (simp_all add: positive_111_def Positive3D_ctor_def Positive3D_updateBernstein_def
      Bernstein3D_ctor_def)

text \<open>
  C8.  For every \<open>Positive3D\<close> a caller can hold (constructed, then changed by any number
  of setter calls), \<open>npars ()\<close> equals \<open>(nx+1)(ny+1)(nz+1) - 1\<close>, and \<open>setPar\<close> called with
  an index \<open>k \<ge> npars ()\<close> returns \<open>false\<close> and leaves the whole object, sphere phases and
  tensor coefficients, as it was.  \<open>Positive3D (1, 1, 1)\<close> has 7 parameters.
\<close>

theorem Positive3D_npars_and_rejected_setPar:
  assumes "Positive3D_reachable p"
  shows "Positive3D_npars p
           = (unat (m_nx (m_bernstein p)) + 1) * (unat (m_ny (m_bernstein p)) + 1)
             * (unat (m_nz (m_bernstein p)) + 1) - 1
       \<and> (Positive3D_npars p \<le> unat k \<longrightarrow> Positive3D_setPar p k v = (False, p))"
proof -
  have "length (m_phases (m_sphere p)) + 1 = Bernstein3D_triples (m_bernstein p)"
    using Positive3D_reachable_inv [OF assms] by (simp add: Positive3D_inv_def)
  then have "Positive3D_npars p = Bernstein3D_triples (m_bernstein p) - 1"
    by (simp add: Positive3D_npars_def NSphere_nPhi_def)
  then show ?thesis
    by (simp add: Bernstein3D_triples_def Positive3D_setPar_def)
qed

theorem Positive3D_npars_and_rejected_setPar_witness:
  "Positive3D_reachable positive_111 \<and> Positive3D_npars positive_111 = 7
   \<and> Positive3D_npars positive_111 \<le> unat (7 :: uint)
   \<and> Positive3D_setPar positive_111 7 (1 / 2) = (False, positive_111)"
proof -
  have n: "Positive3D_npars positive_111 = 7"
    using Positive3D_npars_and_rejected_setPar [OF positive_111_reachable, of 7 "1 / 2"]
    by (simp add: positive_111_degrees)
  show ?thesis
    using positive_111_reachable n
      Positive3D_npars_and_rejected_setPar [OF positive_111_reachable, of 7 "1 / 2"]
    by simp
qed

section \<open>Rounding to binary64\<close>

lemma round_half_even_error: "\<bar>of_int (round_half_even y) - y\<bar> \<le> 1 / 2"
proof -
  have "of_int \<lfloor>y\<rfloor> \<le> y" "y < of_int \<lfloor>y\<rfloor> + 1"
    by linarith+
  then show ?thesis
    unfolding round_half_even_def Let_def by (auto simp: abs_le_iff)
qed

lemma round_half_even_of_int: "round_half_even (of_int k) = k"
  unfolding round_half_even_def Let_def by simp

lemma binade_bounds:
  assumes "0 < a"
  shows "2 powi binade a \<le> a" "a < 2 powi (binade a + 1)"
proof -
  have "2 powi binade a \<le> a \<and> a < 2 powi (binade a + 1)"
  proof (cases "1 \<le> a")
    case True
    define n where "n = nat \<lfloor>a\<rfloor>"
    define w where "w = floorlog 2 n"
    have n1: "1 \<le> n" using True by (simp add: n_def le_nat_iff le_floor_iff)
    have rn: "real n \<le> a" "a < real n + 1"
      using True unfolding n_def by (simp_all add: of_nat_nat)
    have fb: "2 ^ (w - 1) \<le> n" "n < 2 ^ w"
      using floorlog_bounds [of n 2] n1 by (simp_all add: w_def)
    have w1: "1 \<le> w"
      using n1 by (auto simp: w_def floorlog_def)
    have k: "binade a = int (w - 1)"
      using True w1 by (simp add: binade_def n_def w_def)
    have k1: "binade a + 1 = int w"
      using k w1 by simp
    have "(2::real) ^ (w - 1) \<le> real n"
      using of_nat_mono [OF fb(1), where ?'a = real] by simp
    then have lo: "2 ^ (w - 1) \<le> a"
      using rn(1) by linarith
    have "n + 1 \<le> 2 ^ w"
      using fb(2) by simp
    then have "real n + 1 \<le> 2 ^ w"
      using of_nat_mono [of "n + 1" "2 ^ w", where ?'a = real] by simp
    then have hi: "a < 2 ^ w"
      using rn(2) by linarith
    show ?thesis
      unfolding k1 unfolding k using lo hi by simp
  next
    case False
    define c where "c = \<lceil>1 / a\<rceil>"
    define m where "m = nat (c - 1)"
    define w where "w = floorlog 2 m"
    have inv: "1 < 1 / a"
      using False assms by simp
    have c2: "2 \<le> c"
      unfolding c_def using inv by linarith
    have m1: "1 \<le> m"
      using c2 by (simp add: m_def)
    have "real m = of_int c - 1"
      using c2 by (simp add: m_def of_nat_nat)
    then have rm: "real m < 1 / a" "1 / a \<le> real m + 1"
      unfolding c_def by linarith+
    have fb: "2 ^ (w - 1) \<le> m" "m < 2 ^ w"
      using floorlog_bounds [of m 2] m1 by (simp_all add: w_def)
    have w1: "1 \<le> w"
      using m1 by (auto simp: w_def floorlog_def)
    have k: "binade a = - int w"
      using False by (simp add: binade_def m_def c_def w_def)
    have k1: "binade a + 1 = - int (w - 1)"
      using k w1 by simp
    have "m + 1 \<le> 2 ^ w"
      using fb(2) by simp
    then have "real m + 1 \<le> 2 ^ w"
      using of_nat_mono [of "m + 1" "2 ^ w", where ?'a = real] by simp
    then have "1 / a \<le> 2 ^ w"
      using rm(2) by linarith
    then have lo: "1 / 2 ^ w \<le> a"
      using assms by (simp add: field_simps)
    have "(2::real) ^ (w - 1) \<le> real m"
      using of_nat_mono [OF fb(1), where ?'a = real] by simp
    then have "2 ^ (w - 1) < 1 / a"
      using rm(1) by linarith
    then have hi: "a < 1 / 2 ^ (w - 1)"
      using assms by (simp add: field_simps)
    show ?thesis
      unfolding k1 unfolding k using lo hi by (simp add: power_int_minus divide_inverse)
  qed
  then show "2 powi binade a \<le> a" "a < 2 powi (binade a + 1)"
    by simp_all
qed

lemma binade_unique:
  assumes "2 powi k \<le> a" "a < 2 powi (k + 1)"
  shows "binade a = k"
proof -
  have pos: "0 < a"
    using assms(1) zero_less_power_int [of "2::real" k] by linarith
  note b = binade_bounds [OF pos]
  have "\<not> binade a + 1 \<le> k"
  proof
    assume "binade a + 1 \<le> k"
    then have "(2::real) powi (binade a + 1) \<le> 2 powi k"
      by (intro power_int_increasing) simp_all
    then show False using b(2) assms(1) by linarith
  qed
  moreover have "\<not> k + 1 \<le> binade a"
  proof
    assume "k + 1 \<le> binade a"
    then have "(2::real) powi (k + 1) \<le> 2 powi binade a"
      by (intro power_int_increasing) simp_all
    then show False using b(1) assms(2) by linarith
  qed
  ultimately show ?thesis by linarith
qed

lemma binade_floor_log2: "0 < a \<Longrightarrow> binade a = \<lfloor>log 2 a\<rfloor>"
proof -
  assume pos: "0 < a"
  have "2 powr (of_int (binade a)) \<le> a" "a < 2 powr (of_int (binade a + 1))"
    using binade_bounds [OF pos] powr_real_of_int' [of 2 "binade a"]
      powr_real_of_int' [of 2 "binade a + 1"] by simp_all
  then show ?thesis
    using floor_log_eq_powr_iff [of a 2 "binade a"] pos by simp
qed

text \<open>The value of \<open>double_round\<close> on a number whose binade is known.\<close>

lemma double_round_binade:
  assumes "2 powi k \<le> \<bar>r\<bar>" "\<bar>r\<bar> < 2 powi (k + 1)" "- 1022 \<le> k"
  shows "double_round r = of_int (round_half_even (r / 2 powi (k - 52))) * 2 powi (k - 52)"
proof -
  have "(0::real) < 2 powi k"
    by simp
  then have "0 < \<bar>r\<bar>"
    using assms(1) by linarith
  then have "r \<noteq> 0"
    by auto
  moreover have "ulp_exponent r = k - 52"
    unfolding ulp_exponent_def using binade_unique [OF assms(1,2)] assms(3) by simp
  ultimately show ?thesis
    unfolding double_round_def by simp
qed

lemma double_round_exact:
  assumes "2 powi k \<le> \<bar>r\<bar>" "\<bar>r\<bar> < 2 powi (k + 1)" "- 1022 \<le> k"
    and "r = of_int j * 2 powi (k - 52)"
  shows "double_round r = r"
proof -
  have "r / 2 powi (k - 52) = of_int j"
    using assms(4) by simp
  then show ?thesis
    using double_round_binade [OF assms(1-3)] assms(4) by (simp add: round_half_even_of_int)
qed

text \<open>In the normal range rounding changes a number by at most the unit roundoff, relatively.\<close>

lemma double_round_error:
  assumes "double_normal r"
  shows "\<bar>double_round r - r\<bar> \<le> double_unit * \<bar>r\<bar>"
proof (cases "r = 0")
  case True
  then show ?thesis by (simp add: double_round_def)
next
  case False
  define k where "k = binade \<bar>r\<bar>"
  define e where "e = k - 52"
  define s :: real where "s = 2 powi e"
  have spos: "0 < s" by (simp add: s_def)
  have low: "2 powi (- 1022) \<le> \<bar>r\<bar>"
    using assms False by (simp add: double_normal_def)
  have apos: "0 < \<bar>r\<bar>" using False by simp
  have kle: "2 powi k \<le> \<bar>r\<bar>" and klt: "\<bar>r\<bar> < 2 powi (k + 1)"
    unfolding k_def by (rule binade_bounds [OF apos])+
  have "\<not> k + 1 \<le> - 1022"
  proof
    assume "k + 1 \<le> - 1022"
    then have "(2::real) powi (k + 1) \<le> 2 powi (- 1022)"
      by (intro power_int_increasing) simp_all
    then show False using low klt by linarith
  qed
  then have "- 1022 \<le> k" by linarith
  then have ue: "ulp_exponent r = e"
    unfolding ulp_exponent_def k_def [symmetric] e_def by simp
  have dr: "double_round r = of_int (round_half_even (r / s)) * s"
    using False ue by (simp add: double_round_def s_def)
  have "double_round r - r = (of_int (round_half_even (r / s)) - r / s) * s"
    using spos dr by (simp add: field_simps)
  then have "\<bar>double_round r - r\<bar> = \<bar>of_int (round_half_even (r / s)) - r / s\<bar> * s"
    using spos by (simp add: abs_mult)
  also have "\<dots> \<le> 1 / 2 * s"
    using round_half_even_error [of "r / s"] spos by (intro mult_right_mono) auto
  also have "1 / 2 * s = double_unit * 2 powi k"
  proof -
    have "(2::real) powi k = 2 powi (e + 52)" by (simp add: e_def)
    also have "\<dots> = s * 2 powi 52"
      unfolding s_def by (subst power_int_add) auto
    finally have a: "(2::real) powi k = s * 2 ^ 52" by simp
    have b: "double_unit * 2 ^ 53 = 1"
      by (simp add: double_unit_def)
    have "double_unit * (s * 2 ^ 52) = (double_unit * 2 ^ 53) * (1 / 2 * s)"
      by simp
    then show ?thesis unfolding a b by simp
  qed
  also have "\<dots> \<le> double_unit * \<bar>r\<bar>"
    using kle by (intro mult_left_mono) (auto simp: double_unit_def)
  finally show ?thesis .
qed

lemma double_unit_bounds: "0 < double_unit" "double_unit \<le> 1 / 1024"
  by (simp_all add: double_unit_def)

lemma double_unit_small: "0 \<le> w \<Longrightarrow> double_unit * w \<le> w / 1024"
  using mult_right_mono [OF double_unit_bounds(2), of w] by simp

section \<open>Rounding error of the two round trips on one axis\<close>

lemma double_sub_width:
  assumes "lo < hi" "double_normal (hi - lo)"
  shows "(1 - double_unit) * (hi - lo) \<le> double_sub hi lo" "0 < double_sub hi lo"
proof -
  have "\<bar>double_sub hi lo - (hi - lo)\<bar> \<le> double_unit * (hi - lo)"
    using double_round_error [OF assms(2)] assms(1) by (simp add: double_sub_def)
  then show a: "(1 - double_unit) * (hi - lo) \<le> double_sub hi lo"
    by (simp add: algebra_simps abs_le_iff)
  have "0 < (1 - double_unit) * (hi - lo)"
    using assms(1) double_unit_bounds by (intro mult_pos_pos) auto
  then show "0 < double_sub hi lo"
    using a by linarith
qed

lemma double_div_error_scaled:
  assumes "0 < d" "double_normal (n / d)"
  shows "\<bar>d * double_div n d - n\<bar> \<le> double_unit * \<bar>n\<bar>"
proof -
  have "d * double_div n d - n = d * (double_div n d - n / d)"
    using assms(1) by (simp add: field_simps)
  then have "\<bar>d * double_div n d - n\<bar> = d * \<bar>double_div n d - n / d\<bar>"
    using assms(1) by (simp add: abs_mult)
  also have "\<dots> \<le> d * (double_unit * \<bar>n / d\<bar>)"
    using double_round_error [OF assms(2)] assms(1)
    by (intro mult_left_mono) (auto simp: double_div_def)
  also have "\<dots> = double_unit * \<bar>n\<bar>"
    using assms(1) by (simp add: abs_divide)
  finally show ?thesis .
qed

text \<open>
  \<open>x (tx (v))\<close>: four roundings act on a quantity of the size of \<open>v - lo\<close> (one of them
  through the width, which cancels), the last one on the result.
\<close>

lemma x_of_tx_error:
  assumes "lo < hi" "x_of_tx_normal lo hi v"
  shows "\<bar>double_add lo (double_mul (double_sub hi lo)
             (double_div (double_sub v lo) (double_sub hi lo))) - v\<bar>
         \<le> double_unit * (\<bar>v\<bar> + 4 * \<bar>v - lo\<bar>)"
proof -
  define d where "d = double_sub hi lo"
  define n where "n = double_sub v lo"
  define q where "q = double_div n d"
  define p where "p = double_mul d q"
  define r where "r = double_add lo p"
  define A where "A = double_unit * \<bar>v - lo\<bar>"
  have N: "double_normal (hi - lo)" "double_normal (v - lo)" "double_normal (n / d)"
    "double_normal (d * q)" "double_normal (lo + p)"
    using assms(2) unfolding x_of_tx_normal_def Let_def d_def n_def q_def p_def by simp_all
  have dpos: "0 < d"
    unfolding d_def by (rule double_sub_width(2) [OF assms(1) N(1)])
  have A0: "0 \<le> A"
    using double_unit_bounds(1) by (simp add: A_def)
  have UA: "double_unit * A \<le> A / 1024"
    by (rule double_unit_small [OF A0])
  have e1: "\<bar>n - (v - lo)\<bar> \<le> A"
    using double_round_error [OF N(2)] by (simp add: n_def double_sub_def A_def)
  have b1: "\<bar>n\<bar> \<le> \<bar>v - lo\<bar> + A"
    using e1 by linarith
  have "double_unit * \<bar>n\<bar> \<le> double_unit * (\<bar>v - lo\<bar> + A)"
    using mult_left_mono [OF b1, of double_unit] double_unit_bounds(1) by simp
  then have Un: "double_unit * \<bar>n\<bar> \<le> A + double_unit * A"
    by (simp add: A_def algebra_simps)
  have e2: "\<bar>d * q - n\<bar> \<le> double_unit * \<bar>n\<bar>"
    unfolding q_def by (rule double_div_error_scaled [OF dpos N(3)])
  have b2: "\<bar>d * q\<bar> \<le> \<bar>v - lo\<bar> + 3 * A"
    using e1 e2 Un UA A0 by linarith
  have "double_unit * \<bar>d * q\<bar> \<le> double_unit * (\<bar>v - lo\<bar> + 3 * A)"
    using mult_left_mono [OF b2, of double_unit] double_unit_bounds(1) by simp
  then have Udq: "double_unit * \<bar>d * q\<bar> \<le> A + 3 * (double_unit * A)"
    by (simp add: A_def algebra_simps)
  have e3: "\<bar>p - d * q\<bar> \<le> double_unit * \<bar>d * q\<bar>"
    using double_round_error [OF N(4)] by (simp add: p_def double_mul_def)
  have pv: "\<bar>p - (v - lo)\<bar> \<le> 3 * A + A / 128"
    using e1 e2 e3 Un Udq UA by linarith
  have b3: "\<bar>lo + p\<bar> \<le> \<bar>v\<bar> + 4 * A"
    using pv A0 by linarith
  have "double_unit * \<bar>lo + p\<bar> \<le> double_unit * (\<bar>v\<bar> + 4 * A)"
    using mult_left_mono [OF b3, of double_unit] double_unit_bounds(1) by simp
  then have Ulp: "double_unit * \<bar>lo + p\<bar> \<le> double_unit * \<bar>v\<bar> + 4 * (double_unit * A)"
    by (simp add: algebra_simps)
  have e4: "\<bar>r - (lo + p)\<bar> \<le> double_unit * \<bar>lo + p\<bar>"
    using double_round_error [OF N(5)] by (simp add: r_def double_add_def)
  have "\<bar>r - v\<bar> \<le> double_unit * \<bar>v\<bar> + 4 * A"
    using pv e4 Ulp UA by linarith
  then show ?thesis
    unfolding r_def p_def q_def n_def d_def A_def by (simp add: algebra_simps)
qed

text \<open>
  \<open>tx (x (t))\<close>: the rounding of \<open>lo + (hi - lo) * t\<close> is relative to a number of the size
  of \<open>lo\<close> and is then divided by the width, so the error grows with \<open>\<bar>lo\<bar> / (hi - lo)\<close>.
\<close>

lemma tx_of_x_error:
  assumes "lo < hi" "tx_of_x_normal lo hi t"
  shows "\<bar>double_div (double_sub (double_add lo (double_mul (double_sub hi lo) t)) lo)
             (double_sub hi lo) - t\<bar>
         \<le> double_unit * (5 * \<bar>t\<bar> + 3 * \<bar>lo\<bar> / (hi - lo))"
proof -
  define d where "d = double_sub hi lo"
  define p where "p = double_mul d t"
  define s where "s = double_add lo p"
  define n where "n = double_sub s lo"
  define q where "q = double_div n d"
  define P where "P = double_unit * (d * \<bar>t\<bar>)"
  define L where "L = double_unit * \<bar>lo\<bar>"
  have N: "double_normal (hi - lo)" "double_normal (d * t)" "double_normal (lo + p)"
    "double_normal (s - lo)" "double_normal (n / d)"
    using assms(2) unfolding tx_of_x_normal_def Let_def d_def n_def s_def p_def by simp_all
  have dpos: "0 < d"
    unfolding d_def by (rule double_sub_width(2) [OF assms(1) N(1)])
  have dlow: "(1 - double_unit) * (hi - lo) \<le> d"
    unfolding d_def by (rule double_sub_width(1) [OF assms(1) N(1)])
  have P0: "0 \<le> P" and L0: "0 \<le> L"
    using double_unit_bounds(1) dpos by (simp_all add: P_def L_def)
  have UP: "double_unit * P \<le> P / 1024" and UL: "double_unit * L \<le> L / 1024"
    by (rule double_unit_small [OF P0], rule double_unit_small [OF L0])
  have dt: "\<bar>d * t\<bar> = d * \<bar>t\<bar>"
    using dpos by (simp add: abs_mult)
  have e1: "\<bar>p - d * t\<bar> \<le> P"
    using double_round_error [OF N(2)] by (simp add: p_def double_mul_def P_def dt)
  have e2: "\<bar>s - (lo + p)\<bar> \<le> double_unit * \<bar>lo + p\<bar>"
    using double_round_error [OF N(3)] by (simp add: s_def double_add_def)
  have b1: "\<bar>lo + p\<bar> \<le> \<bar>lo\<bar> + (d * \<bar>t\<bar> + P)"
    using e1 dt by linarith
  have "double_unit * \<bar>lo + p\<bar> \<le> double_unit * (\<bar>lo\<bar> + (d * \<bar>t\<bar> + P))"
    using mult_left_mono [OF b1, of double_unit] double_unit_bounds(1) by simp
  then have Ulp: "double_unit * \<bar>lo + p\<bar> \<le> L + P + double_unit * P"
    by (simp add: P_def L_def algebra_simps)
  have e3: "\<bar>n - (s - lo)\<bar> \<le> double_unit * \<bar>s - lo\<bar>"
    using double_round_error [OF N(4)] by (simp add: n_def double_sub_def)
  have b2: "\<bar>s - lo\<bar> \<le> d * \<bar>t\<bar> + 3 * P + L"
    using e1 e2 Ulp UP dt P0 by linarith
  have "double_unit * \<bar>s - lo\<bar> \<le> double_unit * (d * \<bar>t\<bar> + 3 * P + L)"
    using mult_left_mono [OF b2, of double_unit] double_unit_bounds(1) by simp
  then have Usl: "double_unit * \<bar>s - lo\<bar> \<le> P + 3 * (double_unit * P) + double_unit * L"
    by (simp add: P_def L_def algebra_simps)
  have e4: "\<bar>d * q - n\<bar> \<le> double_unit * \<bar>n\<bar>"
    unfolding q_def by (rule double_div_error_scaled [OF dpos N(5)])
  have b3: "\<bar>n\<bar> \<le> d * \<bar>t\<bar> + 4 * P + 2 * L"
    using e1 e2 e3 Ulp Usl UP UL dt P0 L0 by linarith
  have "double_unit * \<bar>n\<bar> \<le> double_unit * (d * \<bar>t\<bar> + 4 * P + 2 * L)"
    using mult_left_mono [OF b3, of double_unit] double_unit_bounds(1) by simp
  then have Un: "double_unit * \<bar>n\<bar> \<le> P + 4 * (double_unit * P) + 2 * (double_unit * L)"
    by (simp add: P_def L_def algebra_simps)
  have tot: "\<bar>d * q - d * t\<bar> \<le> 5 * P + (3 / 2) * L"
    using e1 e2 e3 e4 Ulp Usl Un UP UL P0 L0 by linarith
  have "d * \<bar>q - t\<bar> = \<bar>d * q - d * t\<bar>"
    using dpos by (simp add: abs_mult right_diff_distrib [symmetric])
  then have "\<bar>q - t\<bar> = \<bar>d * q - d * t\<bar> / d"
    using dpos by (simp add: field_simps)
  also have "\<dots> \<le> (5 * P + (3 / 2) * L) / d"
    using tot dpos by (simp add: divide_right_mono)
  also have "\<dots> = double_unit * (5 * \<bar>t\<bar>) + (3 / 2) * L / d"
    using dpos by (simp add: P_def field_simps)
  also have "(3 / 2) * L / d \<le> 3 * L / (hi - lo)"
  proof -
    have w: "0 < hi - lo" using assms(1) by simp
    have "(1 / 2) * (hi - lo) \<le> (1 - double_unit) * (hi - lo)"
      using w double_unit_bounds by (intro mult_right_mono) auto
    then have "(1 / 2) * (hi - lo) \<le> d"
      using dlow by linarith
    then have "(3 / 2) * L * (hi - lo) \<le> 3 * L * d"
      using L0 mult_left_mono [of "(1 / 2) * (hi - lo)" d "3 * L"] by (simp add: algebra_simps)
    then show ?thesis
      using w dpos by (simp add: field_simps)
  qed
  finally have "\<bar>q - t\<bar> \<le> double_unit * (5 * \<bar>t\<bar>) + 3 * L / (hi - lo)"
    by simp
  then show ?thesis
    unfolding q_def n_def s_def p_def d_def L_def by (simp add: algebra_simps)
qed

section \<open>Coordinate transforms invert each other up to rounding\<close>

lemmas transform_defs = Bernstein3D_x_def Bernstein3D_y_def Bernstein3D_z_def
    Bernstein3D_tx_def Bernstein3D_ty_def Bernstein3D_tz_def
    Bernstein3DSym_x_def Bernstein3DSym_y_def Bernstein3DSym_z_def
    Bernstein3DSym_tx_def Bernstein3DSym_ty_def Bernstein3DSym_tz_def
    Bernstein3DMix_x_def Bernstein3DMix_y_def Bernstein3DMix_z_def
    Bernstein3DMix_tx_def Bernstein3DMix_ty_def Bernstein3DMix_tz_def

text \<open>
  The round trips on \<open>[-1, 3]\<close>, operation by operation.  Starting from the \<open>double\<close>
  \<open>0.1\<close>, the subtraction \<open>0.1 - (-1)\<close> is rounded (its exact value needs 56 bits); the
  division by 4 and the multiplication by 4 are exact; the final addition \<open>-1 + 1.1\<close> is
  exact too and returns \<open>0.1000000000000000888\<close>, six units in the last place above
  \<open>0.1\<close>.  Starting from \<open>0.5\<close> every operation is exact.
\<close>

lemma round_trip_from_tenth:
  "double_sub 3 (- 1) = 4"
  "double_sub double_tenth (- 1) = 2476979795053773 / 2251799813685248"
  "double_div (2476979795053773 / 2251799813685248) 4 = 2476979795053773 / 9007199254740992"
  "double_mul 4 (2476979795053773 / 9007199254740992) = 2476979795053773 / 2251799813685248"
  "double_add (- 1) (2476979795053773 / 2251799813685248) = 225179981368525 / 2251799813685248"
proof -
  show "double_sub 3 (- 1) = 4"
    unfolding double_sub_def
    by (rule trans [OF double_round_exact [of 2 _ 4503599627370496]]) simp_all
  have "round_half_even (39631676720860365 / 8) = 4953959590107546"
    by (simp add: round_half_even_def Let_def)
  then show "double_sub double_tenth (- 1) = 2476979795053773 / 2251799813685248"
    unfolding double_sub_def double_tenth_def
    using double_round_binade [of 0 "3602879701896397 / 36028797018963968 - (- 1)"] by simp
  show "double_div (2476979795053773 / 2251799813685248) 4 = 2476979795053773 / 9007199254740992"
    unfolding double_div_def
    by (rule trans [OF double_round_exact [of "- 2" _ 4953959590107546]]) simp_all
  show "double_mul 4 (2476979795053773 / 9007199254740992) = 2476979795053773 / 2251799813685248"
    unfolding double_mul_def
    by (rule trans [OF double_round_exact [of 0 _ 4953959590107546]]) simp_all
  show "double_add (- 1) (2476979795053773 / 2251799813685248) = 225179981368525 / 2251799813685248"
    unfolding double_add_def
    by (rule trans [OF double_round_exact [of "- 4" _ 7205759403792800]]) simp_all
qed

lemma round_trip_from_half:
  "double_mul 4 (1 / 2) = 2"
  "double_add (- 1) 2 = 1"
  "double_sub 1 (- 1) = 2"
  "double_div 2 4 = 1 / 2"
proof -
  show "double_mul 4 (1 / 2) = 2"
    unfolding double_mul_def
    by (rule trans [OF double_round_exact [of 1 _ 4503599627370496]]) simp_all
  show "double_add (- 1) 2 = 1"
    unfolding double_add_def
    by (rule trans [OF double_round_exact [of 0 _ 4503599627370496]]) simp_all
  show "double_sub 1 (- 1) = 2"
    unfolding double_sub_def
    by (rule trans [OF double_round_exact [of 1 _ 4503599627370496]]) simp_all
  show "double_div 2 4 = 1 / 2"
    unfolding double_div_def
    by (rule trans [OF double_round_exact [of "- 1" _ 4503599627370496]]) simp_all
qed

lemma double_tenth_is_double: "double_round double_tenth = double_tenth"
  unfolding double_tenth_def
  by (rule double_round_exact [of "- 4" _ 7205759403792794]) simp_all

lemma double_normal_moderate:
  assumes "1 / 1024 \<le> \<bar>r\<bar>" "\<bar>r\<bar> \<le> 1024"
  shows "double_normal r"
proof -
  have "(2::real) powi (- 1022) \<le> 2 powi (- 10)"
    by (rule power_int_increasing) simp_all
  then have a: "2 powi (- 1022) \<le> \<bar>r\<bar>"
    using assms(1) by simp
  have "(2::real) ^ 10 \<le> 2 ^ 971"
    by (rule power_increasing) simp_all
  moreover have "(1::real) * 2 ^ 971 \<le> double_max"
    unfolding double_max_def by (rule mult_right_mono) simp_all
  ultimately have b: "\<bar>r\<bar> \<le> double_max"
    using assms(2) by simp
  show ?thesis
    unfolding double_normal_def using a b by blast
qed

lemma x_of_tx_normal_tenth: "x_of_tx_normal (- 1) 3 double_tenth"
  unfolding x_of_tx_normal_def Let_def round_trip_from_tenth
  by (intro conjI double_normal_moderate) (simp_all add: double_tenth_def)

lemma tx_of_x_normal_half: "tx_of_x_normal (- 1) 3 (1 / 2)"
  unfolding tx_of_x_normal_def Let_def round_trip_from_tenth(1) round_trip_from_half
  by (intro conjI double_normal_moderate) simp_all

lemma m13_edges:
  "m_xmin cube_m13 = - 1" "m_xmax cube_m13 = 3" "m_ymin cube_m13 = - 1" "m_ymax cube_m13 = 3"
  "m_zmin cube_m13 = - 1" "m_zmax cube_m13 = 3"
  "sym_m_xmin sym_m13 = - 1" "sym_m_xmax sym_m13 = 3"
  "mix_m_xmin mix_m13 = - 1" "mix_m_xmax mix_m13 = 3"
  "mix_m_zmin mix_m13 = - 1" "mix_m_zmax mix_m13 = 3"
  by (simp_all add: cube_m13_def sym_m13_def mix_m13_def
      Bernstein3D_ctor_def Bernstein3DSym_ctor_def Bernstein3DMix_ctor_def)

text \<open>
  C9 (amended).  For every tensor variant whose intervals are proper (\<open>min < max\<close> on each
  axis, as the data model requires), the transforms of each axis are mutually inverse up to
  rounding, not exactly: provided the exact value of every intermediate result is zero or
  lies, in magnitude, between the smallest normal \<open>double\<close> and the largest \<open>double\<close>,
  \<open>\<bar>x (tx (v)) - v\<bar> \<le> 2^(-53) * (\<bar>v\<bar> + 4 * \<bar>v - xmin\<bar>)\<close> and
  \<open>\<bar>tx (x (t)) - t\<bar> \<le> 2^(-53) * (5 * \<bar>t\<bar> + 3 * \<bar>xmin\<bar> / (xmax - xmin))\<close>, likewise for
  \<open>y\<close> and \<open>z\<close> on their intervals.  The bounds hold for every \<open>v\<close> and \<open>t\<close>, in particular
  for \<open>v\<close> in the interval and \<open>t\<close> in \<open>[0, 1]\<close>.
\<close>

theorem transforms_inverse_up_to_rounding:
  assumes "m_xmin b < m_xmax b" and "m_ymin b < m_ymax b" and "m_zmin b < m_zmax b"
    and "sym_m_xmin s < sym_m_xmax s"
    and "mix_m_xmin c < mix_m_xmax c" and "mix_m_zmin c < mix_m_zmax c"
    and "x_of_tx_normal (m_xmin b) (m_xmax b) v" and "tx_of_x_normal (m_xmin b) (m_xmax b) t"
    and "x_of_tx_normal (m_ymin b) (m_ymax b) v" and "tx_of_x_normal (m_ymin b) (m_ymax b) t"
    and "x_of_tx_normal (m_zmin b) (m_zmax b) v" and "tx_of_x_normal (m_zmin b) (m_zmax b) t"
    and "x_of_tx_normal (sym_m_xmin s) (sym_m_xmax s) v"
    and "tx_of_x_normal (sym_m_xmin s) (sym_m_xmax s) t"
    and "x_of_tx_normal (mix_m_xmin c) (mix_m_xmax c) v"
    and "tx_of_x_normal (mix_m_xmin c) (mix_m_xmax c) t"
    and "x_of_tx_normal (mix_m_zmin c) (mix_m_zmax c) v"
    and "tx_of_x_normal (mix_m_zmin c) (mix_m_zmax c) t"
  shows "\<bar>Bernstein3D_x b (Bernstein3D_tx b v) - v\<bar> \<le> double_unit * (\<bar>v\<bar> + 4 * \<bar>v - m_xmin b\<bar>)
       \<and> \<bar>Bernstein3D_tx b (Bernstein3D_x b t) - t\<bar>
           \<le> double_unit * (5 * \<bar>t\<bar> + 3 * \<bar>m_xmin b\<bar> / (m_xmax b - m_xmin b))
       \<and> \<bar>Bernstein3D_y b (Bernstein3D_ty b v) - v\<bar> \<le> double_unit * (\<bar>v\<bar> + 4 * \<bar>v - m_ymin b\<bar>)
       \<and> \<bar>Bernstein3D_ty b (Bernstein3D_y b t) - t\<bar>
           \<le> double_unit * (5 * \<bar>t\<bar> + 3 * \<bar>m_ymin b\<bar> / (m_ymax b - m_ymin b))
       \<and> \<bar>Bernstein3D_z b (Bernstein3D_tz b v) - v\<bar> \<le> double_unit * (\<bar>v\<bar> + 4 * \<bar>v - m_zmin b\<bar>)
       \<and> \<bar>Bernstein3D_tz b (Bernstein3D_z b t) - t\<bar>
           \<le> double_unit * (5 * \<bar>t\<bar> + 3 * \<bar>m_zmin b\<bar> / (m_zmax b - m_zmin b))
       \<and> \<bar>Bernstein3DSym_x s (Bernstein3DSym_tx s v) - v\<bar>
           \<le> double_unit * (\<bar>v\<bar> + 4 * \<bar>v - sym_m_xmin s\<bar>)
       \<and> \<bar>Bernstein3DSym_tx s (Bernstein3DSym_x s t) - t\<bar>
           \<le> double_unit * (5 * \<bar>t\<bar> + 3 * \<bar>sym_m_xmin s\<bar> / (sym_m_xmax s - sym_m_xmin s))
       \<and> \<bar>Bernstein3DSym_y s (Bernstein3DSym_ty s v) - v\<bar>
           \<le> double_unit * (\<bar>v\<bar> + 4 * \<bar>v - sym_m_xmin s\<bar>)
       \<and> \<bar>Bernstein3DSym_ty s (Bernstein3DSym_y s t) - t\<bar>
           \<le> double_unit * (5 * \<bar>t\<bar> + 3 * \<bar>sym_m_xmin s\<bar> / (sym_m_xmax s - sym_m_xmin s))
       \<and> \<bar>Bernstein3DSym_z s (Bernstein3DSym_tz s v) - v\<bar>
           \<le> double_unit * (\<bar>v\<bar> + 4 * \<bar>v - sym_m_xmin s\<bar>)
       \<and> \<bar>Bernstein3DSym_tz s (Bernstein3DSym_z s t) - t\<bar>
           \<le> double_unit * (5 * \<bar>t\<bar> + 3 * \<bar>sym_m_xmin s\<bar> / (sym_m_xmax s - sym_m_xmin s))
       \<and> \<bar>Bernstein3DMix_x c (Bernstein3DMix_tx c v) - v\<bar>
           \<le> double_unit * (\<bar>v\<bar> + 4 * \<bar>v - mix_m_xmin c\<bar>)
       \<and> \<bar>Bernstein3DMix_tx c (Bernstein3DMix_x c t) - t\<bar>
           \<le> double_unit * (5 * \<bar>t\<bar> + 3 * \<bar>mix_m_xmin c\<bar> / (mix_m_xmax c - mix_m_xmin c))
       \<and> \<bar>Bernstein3DMix_y c (Bernstein3DMix_ty c v) - v\<bar>
           \<le> double_unit * (\<bar>v\<bar> + 4 * \<bar>v - mix_m_xmin c\<bar>)
       \<and> \<bar>Bernstein3DMix_ty c (Bernstein3DMix_y c t) - t\<bar>
           \<le> double_unit * (5 * \<bar>t\<bar> + 3 * \<bar>mix_m_xmin c\<bar> / (mix_m_xmax c - mix_m_xmin c))
       \<and> \<bar>Bernstein3DMix_z c (Bernstein3DMix_tz c v) - v\<bar>
           \<le> double_unit * (\<bar>v\<bar> + 4 * \<bar>v - mix_m_zmin c\<bar>)
       \<and> \<bar>Bernstein3DMix_tz c (Bernstein3DMix_z c t) - t\<bar>
           \<le> double_unit * (5 * \<bar>t\<bar> + 3 * \<bar>mix_m_zmin c\<bar> / (mix_m_zmax c - mix_m_zmin c))"
  unfolding transform_defs edge_defs
  by (intro conjI
      x_of_tx_error [OF assms(1) assms(7)] tx_of_x_error [OF assms(1) assms(8)]
      x_of_tx_error [OF assms(2) assms(9)] tx_of_x_error [OF assms(2) assms(10)]
      x_of_tx_error [OF assms(3) assms(11)] tx_of_x_error [OF assms(3) assms(12)]
      x_of_tx_error [OF assms(4) assms(13)] tx_of_x_error [OF assms(4) assms(14)]
      x_of_tx_error [OF assms(5) assms(15)] tx_of_x_error [OF assms(5) assms(16)]
      x_of_tx_error [OF assms(6) assms(17)] tx_of_x_error [OF assms(6) assms(18)])

theorem transforms_inverse_up_to_rounding_witness:
  "m_xmin cube_m13 < m_xmax cube_m13 \<and> m_ymin cube_m13 < m_ymax cube_m13
   \<and> m_zmin cube_m13 < m_zmax cube_m13 \<and> sym_m_xmin sym_m13 < sym_m_xmax sym_m13
   \<and> mix_m_xmin mix_m13 < mix_m_xmax mix_m13 \<and> mix_m_zmin mix_m13 < mix_m_zmax mix_m13
   \<and> x_of_tx_normal (m_xmin cube_m13) (m_xmax cube_m13) double_tenth
   \<and> tx_of_x_normal (m_xmin cube_m13) (m_xmax cube_m13) (1 / 2)
   \<and> x_of_tx_normal (m_ymin cube_m13) (m_ymax cube_m13) double_tenth
   \<and> tx_of_x_normal (m_ymin cube_m13) (m_ymax cube_m13) (1 / 2)
   \<and> x_of_tx_normal (m_zmin cube_m13) (m_zmax cube_m13) double_tenth
   \<and> tx_of_x_normal (m_zmin cube_m13) (m_zmax cube_m13) (1 / 2)
   \<and> x_of_tx_normal (sym_m_xmin sym_m13) (sym_m_xmax sym_m13) double_tenth
   \<and> tx_of_x_normal (sym_m_xmin sym_m13) (sym_m_xmax sym_m13) (1 / 2)
   \<and> x_of_tx_normal (mix_m_xmin mix_m13) (mix_m_xmax mix_m13) double_tenth
   \<and> tx_of_x_normal (mix_m_xmin mix_m13) (mix_m_xmax mix_m13) (1 / 2)
   \<and> x_of_tx_normal (mix_m_zmin mix_m13) (mix_m_zmax mix_m13) double_tenth
   \<and> tx_of_x_normal (mix_m_zmin mix_m13) (mix_m_zmax mix_m13) (1 / 2)
   \<and> \<bar>Bernstein3D_x cube_m13 (Bernstein3D_tx cube_m13 double_tenth) - double_tenth\<bar>
       \<le> double_unit * (\<bar>double_tenth\<bar> + 4 * \<bar>double_tenth - m_xmin cube_m13\<bar>)
   \<and> \<bar>Bernstein3D_tx cube_m13 (Bernstein3D_x cube_m13 (1 / 2)) - 1 / 2\<bar>
       \<le> double_unit * (5 * \<bar>1 / 2\<bar> + 3 * \<bar>m_xmin cube_m13\<bar> / (m_xmax cube_m13 - m_xmin cube_m13))
   \<and> \<bar>Bernstein3DSym_z sym_m13 (Bernstein3DSym_tz sym_m13 double_tenth) - double_tenth\<bar>
       \<le> double_unit * (\<bar>double_tenth\<bar> + 4 * \<bar>double_tenth - sym_m_xmin sym_m13\<bar>)
   \<and> \<bar>Bernstein3DMix_ty mix_m13 (Bernstein3DMix_y mix_m13 (1 / 2)) - 1 / 2\<bar>
       \<le> double_unit * (5 * \<bar>1 / 2\<bar> + 3 * \<bar>mix_m_xmin mix_m13\<bar> / (mix_m_xmax mix_m13 - mix_m_xmin mix_m13))
   \<and> Bernstein3D_x cube_m13 (Bernstein3D_tx cube_m13 double_tenth) - double_tenth
       = 3 / 36028797018963968
   \<and> Bernstein3D_tx cube_m13 (Bernstein3D_x cube_m13 (1 / 2)) = 1 / 2"
proof -
  have o: "m_xmin cube_m13 < m_xmax cube_m13" "m_ymin cube_m13 < m_ymax cube_m13"
    "m_zmin cube_m13 < m_zmax cube_m13" "sym_m_xmin sym_m13 < sym_m_xmax sym_m13"
    "mix_m_xmin mix_m13 < mix_m_xmax mix_m13" "mix_m_zmin mix_m13 < mix_m_zmax mix_m13"
    by (simp_all add: m13_edges)
  have n: "x_of_tx_normal (m_xmin cube_m13) (m_xmax cube_m13) double_tenth"
    "tx_of_x_normal (m_xmin cube_m13) (m_xmax cube_m13) (1 / 2)"
    "x_of_tx_normal (m_ymin cube_m13) (m_ymax cube_m13) double_tenth"
    "tx_of_x_normal (m_ymin cube_m13) (m_ymax cube_m13) (1 / 2)"
    "x_of_tx_normal (m_zmin cube_m13) (m_zmax cube_m13) double_tenth"
    "tx_of_x_normal (m_zmin cube_m13) (m_zmax cube_m13) (1 / 2)"
    "x_of_tx_normal (sym_m_xmin sym_m13) (sym_m_xmax sym_m13) double_tenth"
    "tx_of_x_normal (sym_m_xmin sym_m13) (sym_m_xmax sym_m13) (1 / 2)"
    "x_of_tx_normal (mix_m_xmin mix_m13) (mix_m_xmax mix_m13) double_tenth"
    "tx_of_x_normal (mix_m_xmin mix_m13) (mix_m_xmax mix_m13) (1 / 2)"
    "x_of_tx_normal (mix_m_zmin mix_m13) (mix_m_zmax mix_m13) double_tenth"
    "tx_of_x_normal (mix_m_zmin mix_m13) (mix_m_zmax mix_m13) (1 / 2)"
    unfolding m13_edges by (rule x_of_tx_normal_tenth tx_of_x_normal_half)+
  have v: "Bernstein3D_x cube_m13 (Bernstein3D_tx cube_m13 double_tenth) - double_tenth
           = 3 / 36028797018963968"
    unfolding Bernstein3D_x_def Bernstein3D_tx_def m13_edges round_trip_from_tenth
    by (simp add: double_tenth_def)
  have t: "Bernstein3D_tx cube_m13 (Bernstein3D_x cube_m13 (1 / 2)) = 1 / 2"
    unfolding Bernstein3D_x_def Bernstein3D_tx_def m13_edges round_trip_from_tenth(1)
      round_trip_from_half
    by (rule refl)
  show ?thesis
    using o n v t transforms_inverse_up_to_rounding [OF o n]
    by blast
qed

text \<open>
  The claim as the spec states it, with exact equality, fails: on \<open>[-1, 3]\<close> the \<open>double\<close>
  \<open>0.1\<close> lies in the interval, and \<open>x (tx (0.1))\<close> is \<open>0.10000000000000009\<close>.
\<close>

theorem transforms_round_trip_counterexample:
  "m_xmin cube_m13 < m_xmax cube_m13
   \<and> m_xmin cube_m13 \<le> double_tenth \<and> double_tenth \<le> m_xmax cube_m13
   \<and> double_round double_tenth = double_tenth
   \<and> Bernstein3D_tx cube_m13 double_tenth = 2476979795053773 / 9007199254740992
   \<and> Bernstein3D_x cube_m13 (Bernstein3D_tx cube_m13 double_tenth)
       = 225179981368525 / 2251799813685248
   \<and> Bernstein3D_x cube_m13 (Bernstein3D_tx cube_m13 double_tenth) \<noteq> double_tenth"
proof -
  have a: "Bernstein3D_tx cube_m13 double_tenth = 2476979795053773 / 9007199254740992"
    unfolding Bernstein3D_tx_def m13_edges round_trip_from_tenth by (rule refl)
  have b: "Bernstein3D_x cube_m13 (Bernstein3D_tx cube_m13 double_tenth)
           = 225179981368525 / 2251799813685248"
    unfolding a unfolding Bernstein3D_x_def m13_edges round_trip_from_tenth by (rule refl)
  have c: "Bernstein3D_x cube_m13 (Bernstein3D_tx cube_m13 double_tenth) \<noteq> double_tenth"
    unfolding b by (simp add: double_tenth_def)
  have d: "m_xmin cube_m13 < m_xmax cube_m13" "m_xmin cube_m13 \<le> double_tenth"
    "double_tenth \<le> m_xmax cube_m13"
    by (simp_all add: m13_edges double_tenth_def)
  show ?thesis
    using a b c d double_tenth_is_double by blast
qed

end
